theory Spec2Isabelle
  imports Complex_Main "HOL-Library.Product_Lexorder" "HOL-Library.List_Lexorder"
    "HOL-Library.Char_ord"
begin

chapter \<open>The model\<close>

section \<open>Python values\<close>

text \<open>
  A Python \<open>str\<close> is modelled as a \<open>string\<close>, one \<open>char\<close> per code point, so the
  model covers the strings whose code points are below 256. With \<open>Char_ord\<close> and
  \<open>List_Lexorder\<close> the order \<open><\<close> on \<open>string\<close> is the lexicographic order by code
  point, which is the order Python's \<open><\<close> gives two \<open>str\<close> values. Python's \<open>int\<close> is
  \<open>int\<close>. Exceptions are values of the type \<open>error\<close>; a function that can raise returns
  \<open>error + 'a\<close>, with \<open>Inl\<close> for the exception.
\<close>

datatype error =
    TypeError
  | ValueError
  | ZeroDivisionError
  | InvalidVersion
  | UnboundLocalError
  | OtherError

text \<open>\<open>str.isspace\<close> on one character: the white space below code point 256.\<close>

definition isspace :: "char \<Rightarrow> bool" where
  "isspace c = (c \<in> set [CHR 0x09, CHR 0x0A, CHR 0x0B, CHR 0x0C, CHR 0x0D,
     CHR 0x1C, CHR 0x1D, CHR 0x1E, CHR 0x1F, CHR 0x20, CHR 0x85, CHR 0xA0])"

text \<open>\<open>str.strip()\<close>: white space is removed at both ends.\<close>

definition strip :: "string \<Rightarrow> string" where
  "strip s = rev (dropWhile isspace (rev (dropWhile isspace s)))"

text \<open>
  \<open>str.split(sep)\<close> for a separator of one character: the pieces between the
  separators, of which there is always at least one.
\<close>

fun split_on :: "char \<Rightarrow> string \<Rightarrow> string list" where
  "split_on sep [] = [[]]"
| "split_on sep (c # cs) =
     (if c = sep then [] # split_on sep cs
      else (case split_on sep cs of [] \<Rightarrow> [[c]] | p # ps \<Rightarrow> (c # p) # ps))"

text \<open>
  \<open>str.isdigit()\<close>: the string is not empty and every character is a digit. Below code
  point 256 the digits are \<open>0\<close> to \<open>9\<close> and the superscripts two, three and one
  (\<open>0xB2\<close>, \<open>0xB3\<close>, \<open>0xB9\<close>).
\<close>

definition decimal_char :: "char \<Rightarrow> bool" where
  "decimal_char c = (c \<in> set ''0123456789'')"

definition isdigit_char :: "char \<Rightarrow> bool" where
  "isdigit_char c = (decimal_char c \<or> c \<in> set [CHR 0xB2, CHR 0xB3, CHR 0xB9])"

definition isdigit :: "string \<Rightarrow> bool" where
  "isdigit s = (s \<noteq> [] \<and> list_all isdigit_char s)"

text \<open>
  \<open>int(s)\<close> for a string of digits: the decimal value, most significant digit first.
  \<open>int\<close> reads the decimal digits only, so a superscript digit raises \<open>ValueError\<close>.
  (CPython's optional limit on the number of digits is not modelled.)
\<close>

definition digit_val :: "char \<Rightarrow> int" where
  "digit_val c = int (of_char c) - 48"

definition digits_value :: "string \<Rightarrow> int" where
  "digits_value s = foldl (\<lambda>n c. 10 * n + digit_val c) 0 s"

definition int_of_digits :: "string \<Rightarrow> error + int" where
  "int_of_digits s = (if list_all decimal_char s then Inr (digits_value s) else Inl ValueError)"

section \<open>Version comparison: \<open>ConfigManager.sversion\<close>\<close>

text \<open>
  \<open>sversion\<close> returns a tuple whose elements are integers (for the numeric parts) and
  strings (for the others).
\<close>

datatype part = IntPart int | StrPart string

fun sversion_parts :: "string list \<Rightarrow> error + part list" where
  "sversion_parts [] = Inr []"
| "sversion_parts (p # ps) =
     (if isdigit p then
        (case int_of_digits p of
           Inl e \<Rightarrow> Inl e
         | Inr n \<Rightarrow> (case sversion_parts ps of Inl e \<Rightarrow> Inl e | Inr v \<Rightarrow> Inr (IntPart n # v)))
      else
        (case sversion_parts ps of Inl e \<Rightarrow> Inl e | Inr v \<Rightarrow> Inr (StrPart p # v)))"

definition sversion :: "string \<Rightarrow> error + part list" where
  "sversion version_str = sversion_parts (split_on (CHR ''.'') version_str)"

text \<open>
  Python's \<open><\<close> on two elements of such tuples: two integers and two strings are
  ordered; an integer and a string are not, and comparing them raises \<open>TypeError\<close>.
\<close>

fun part_lt :: "part \<Rightarrow> part \<Rightarrow> error + bool" where
  "part_lt (IntPart m) (IntPart n) = Inr (m < n)"
| "part_lt (StrPart s) (StrPart t) = Inr (s < t)"
| "part_lt (IntPart m) (StrPart t) = Inl TypeError"
| "part_lt (StrPart s) (IntPart n) = Inl TypeError"

text \<open>
  Python's \<open><\<close> on two tuples: the first position where the elements are not equal
  decides, by \<open><\<close> on the two elements there; when one tuple runs out first, the shorter
  one is the smaller. (An integer and a string are never equal.)
\<close>

fun tuple_lt :: "part list \<Rightarrow> part list \<Rightarrow> error + bool" where
  "tuple_lt [] [] = Inr False"
| "tuple_lt [] (y # ys) = Inr True"
| "tuple_lt (x # xs) [] = Inr False"
| "tuple_lt (x # xs) (y # ys) = (if x = y then tuple_lt xs ys else part_lt x y)"

text \<open>
  The expression \<open>self.cfg.sversion(a) < self.cfg.sversion(b)\<close>, the only use the
  program makes of \<open>sversion\<close>: the left operand is evaluated first.
\<close>

definition sversion_lt :: "string \<Rightarrow> string \<Rightarrow> error + bool" where
  "sversion_lt a b =
     (case sversion a of
        Inl e \<Rightarrow> Inl e
      | Inr x \<Rightarrow> (case sversion b of Inl e \<Rightarrow> Inl e | Inr y \<Rightarrow> tuple_lt x y))"

section \<open>The toolchain policy (\<open>Builder.build_all_eb\<close>, the checks against \<open>min_toolchains\<close>)\<close>

text \<open>
  What \<open>_read_easyconfig\<close> returns of a recipe: its name and version, the name and the
  version of its toolchain, its OS dependencies and its module class.
\<close>

record package =
  pkg_name :: string
  pkg_version :: string
  tc_name :: string
  tc_version :: string
  osdep :: "string list"
  cls :: string

text \<open>The table \<open>Builder.__init__\<close> writes when the configuration has none.\<close>

definition default_min_toolchains :: "string \<rightharpoonup> string" where
  "default_min_toolchains = map_of
     [(''system'', ''system''), (''GCC'', ''11.0''), (''GCCcore'', ''11.0''),
      (''LLVM'', ''12.0''), (''foss'', ''2022a''), (''gfbf'', ''2022a'')]"

text \<open>
  The three checks, in the order of the source. A check that fires sets the status
  \<open>skipped\<close> with its reason and ends the pass; \<open>Skip\<close> carries the reason. An exception
  of a comparison leaves the checks.
\<close>

datatype verdict = Eligible | Skip string

definition toolchain_policy :: "(string \<rightharpoonup> string) \<Rightarrow> package \<Rightarrow> error + verdict" where
  "toolchain_policy min_toolchains p =
     (case (case min_toolchains (pkg_name p) of
              None \<Rightarrow> Inr False
            | Some minimum \<Rightarrow> sversion_lt (pkg_version p) minimum) of
        Inl e \<Rightarrow> Inl e
      | Inr True \<Rightarrow> Inr (Skip (''toolchain version too old: '' @ pkg_version p))
      | Inr False \<Rightarrow>
          (case min_toolchains (tc_name p) of
             None \<Rightarrow> Inr (Skip (''toolchain not supported: '' @ tc_name p))
           | Some minimum \<Rightarrow>
               (case sversion_lt (tc_version p) minimum of
                  Inl e \<Rightarrow> Inl e
                | Inr True \<Rightarrow>
                    Inr (Skip (''toolchain version too old: '' @ tc_name p @ ''-'' @ tc_version p))
                | Inr False \<Rightarrow> Inr Eligible)))"

section \<open>The build loop: \<open>Builder.build_all_eb\<close>\<close>

subsection \<open>Status records and the status dictionary\<close>

text \<open>
  What \<open>_eb_missing_modules\<close> returns: the dictionary from the missing modules to
  their easyconfigs, in the order of the tool's output (the recipe itself comes last), or
  the dictionary \<open>{'error': 1}\<close> when the tool exits with an error.
\<close>

datatype missing = Modules "(string \<times> string) list" | QueryError

text \<open>One record of \<open>eb-build-status.json\<close>, with the fields of \<open>statdict_template\<close>.\<close>

record build_status =
  status :: string
  reason :: string
  returncode :: int
  errorcount :: int
  trydate :: string
  buildtime :: int
  modules :: "missing option"

definition statdict_template :: "string \<Rightarrow> build_status" where
  "statdict_template now =
     \<lparr>status = ''unknown'', reason = ''n/a'', returncode = - 1, errorcount = 0,
      trydate = now, buildtime = 0, modules = None\<rparr>"

text \<open>
  The JSON document in the object store is a map from the easyconfig's file name to its
  record; an absent document reads as the empty map. The model is one worker with a
  store that answers every read and write: \<open>s3_put_json\<close> replaces the document,
  \<open>s3_get_json\<close> returns it.
\<close>

type_synonym store = "string \<rightharpoonup> build_status"

text \<open>
  Inside a pass \<open>statdict\<close> is a Python dictionary of dictionaries: its keys refer to
  record objects, and an assignment \<open>statdict[k]['status'] = v\<close> changes the object,
  for every key that refers to it. \<open>json.loads\<close> makes one object per key (\<open>Loaded k\<close>);
  the pass makes one more, \<open>statdict_template\<close> (\<open>Template\<close>), and the statement
  \<open>statdict[k] = statdict_template\<close> lets the key refer to that one object, without a
  copy. So the dictionary is a map from keys to references with a heap of records.
\<close>

datatype ref = Loaded string | Template

record objects =
  refs :: "string \<rightharpoonup> ref"
  heap :: "ref \<rightharpoonup> build_status"

text \<open>
  \<open>statdict = s3_get_json(...)\<close> in a pass whose template holds the time \<open>now\<close>, and
  what \<open>json.dumps(statdict)\<close> writes.
\<close>

definition json_loads :: "string \<Rightarrow> store \<Rightarrow> objects" where
  "json_loads now doc =
     \<lparr>refs = (\<lambda>k. case doc k of None \<Rightarrow> None | Some _ \<Rightarrow> Some (Loaded k)),
      heap = (\<lambda>r. case r of Loaded k \<Rightarrow> doc k | Template \<Rightarrow> Some (statdict_template now))\<rparr>"

definition json_dumps :: "objects \<Rightarrow> store" where
  "json_dumps d = (\<lambda>k. case refs d k of None \<Rightarrow> None | Some r \<Rightarrow> heap d r)"

text \<open>\<open>if k not in statdict: statdict[k] = statdict_template\<close>\<close>

definition default_template :: "string \<Rightarrow> objects \<Rightarrow> objects" where
  "default_template k d =
     (case refs d k of None \<Rightarrow> d\<lparr>refs := (refs d)(k \<mapsto> Template)\<rparr> | Some _ \<Rightarrow> d)"

text \<open>
  Assignments to fields of \<open>statdict[k]\<close>: the object the key refers to is changed by
  \<open>f\<close>. (The key is present wherever the source assigns.)
\<close>

definition set_fields :: "string \<Rightarrow> (build_status \<Rightarrow> build_status) \<Rightarrow> objects \<Rightarrow> objects" where
  "set_fields k f d =
     (case refs d k of
        None \<Rightarrow> d
      | Some r \<Rightarrow> (case heap d r of None \<Rightarrow> d | Some x \<Rightarrow> d\<lparr>heap := (heap d)(r \<mapsto> f x)\<rparr>))"

subsection \<open>What a pass reads\<close>

text \<open>
  The configuration of a run: the flag \<open>--check-skipped\<close>, the table \<open>min_toolchains\<close>
  and the options \<open>--include\<close> and \<open>--exclude\<close>.
\<close>

record config =
  checkskipped :: bool
  min_toolchains :: "string \<rightharpoonup> string"
  include_opt :: string
  exclude_opt :: string

text \<open>
  The steps of a pass that work outside the status dictionary and may raise: the sweep of
  failed instances, \<open>_read_easyconfig\<close>, the installation of the OS dependencies, the
  query of the missing modules, the download of earlier packages, the copy of the build
  log of a failed easyconfig, the second query of the missing modules, the archiving of
  new packages and their upload. An exception in the pass is caught by the loop, which
  goes on with the next recipe.
\<close>

datatype step =
    Sweep
  | ReadEasyconfig
  | InstallOsDeps
  | QueryMissing
  | Download
  | CopyLog string
  | QueryMissingAgain
  | TarSoftware
  | Upload

text \<open>
  What one pass reads from the outside: the easyconfig and its path, the clock, the parsed
  recipe, the two answers of the missing-modules query, the return code of every
  \<open>eb\<close> command line, which of the steps above raise, and whether the archiving made
  new archives.
\<close>

record recipe =
  ebfile :: string
  ebpath :: string
  trydate0 :: string
  easyconfig :: package
  themissing :: missing
  themissing2 :: missing
  eb :: "string \<Rightarrow> int"
  raises :: "step \<Rightarrow> bool"
  dep_trydate :: "string \<Rightarrow> string"
  dep_buildtime :: "string \<Rightarrow> int"
  target_buildtime :: int
  new_tars :: bool

text \<open>
  The state the loop carries from one pass to the next: the dictionary \<open>statdict\<close> (as
  the records its keys give), the document in the object store, the counters and the list
  of failed easyconfigs, and the \<open>eb\<close> command lines run so far.
\<close>

record bstate =
  statdict :: store
  s3 :: store
  ebcnt :: int
  ebskipped :: int
  bldcnt :: int
  errcnt :: int
  errpkg :: "string list"
  eb_runs :: "string list"

subsection \<open>The planner: from the start of a pass to the decision\<close>

text \<open>\<open>sub in s\<close> on strings.\<close>

fun contains :: "string \<Rightarrow> string \<Rightarrow> bool" where
  "contains sub [] = (sub = [])"
| "contains sub (c # cs) = (take (length sub) (c # cs) = sub \<or> contains sub cs)"

text \<open>
  The filter on the module class: \<open>includes\<close> and \<open>excludes\<close> are the options split at
  the commas (an empty option gives the empty list), and the exclusions are consulted
  only when there are no inclusions. The result is the reason of the skip.
\<close>

definition class_filter :: "string \<Rightarrow> string \<Rightarrow> string \<Rightarrow> string option" where
  "class_filter include exclude c =
     (let includes = (if include \<noteq> [] then split_on (CHR '','') include else []);
          excludes = (if exclude \<noteq> [] then split_on (CHR '','') exclude else [])
      in if includes \<noteq> [] then
           (if c \<notin> set includes then Some ''module class not included via --include option''
            else None)
         else if excludes \<noteq> [] then
           (if c \<in> set excludes then Some ''module class excluded via --exclude option''
            else None)
         else None)"

text \<open>The keys and the values of the dictionary \<open>themissing\<close>, and \<open>not themissing\<close>.\<close>

fun missing_keys :: "missing \<Rightarrow> string list" where
  "missing_keys (Modules kv) = map fst kv"
| "missing_keys QueryError = [''error'']"

fun missing_empty :: "missing \<Rightarrow> bool" where
  "missing_empty (Modules kv) = (kv = [])"
| "missing_empty QueryError = False"

text \<open>
  \<open>_errors_in_missing\<close>: the easyconfigs among the values whose record has the status
  \<open>error\<close>. (The value 1 of the error dictionary is no key of \<open>statdict\<close>.)
\<close>

fun errors_in_missing :: "missing \<Rightarrow> store \<Rightarrow> string list" where
  "errors_in_missing (Modules kv) sd =
     filter (\<lambda>ebf. case sd ebf of None \<Rightarrow> False | Some x \<Rightarrow> status x = ''error'') (map snd kv)"
| "errors_in_missing QueryError sd = []"

text \<open>
  \<open>list(themissing.values())[:-1]\<close>: the dependencies, without the last value, which is
  the recipe itself.
\<close>

fun dependencies :: "missing \<Rightarrow> string list" where
  "dependencies (Modules kv) = butlast (map snd kv)"
| "dependencies QueryError = []"

text \<open>
  The loop that sets \<open>doskip\<close>: a missing module \<open>name/version\<close> (or \<open>name\<close>, with the
  version \<open>0.0\<close>) whose name is in the table and whose version is below the minimum.
  Unpacking \<open>miss.split('/')\<close> into two names raises \<open>ValueError\<close> when there are more
  than two pieces.
\<close>

fun missing_too_old :: "(string \<rightharpoonup> string) \<Rightarrow> string list \<Rightarrow> bool \<Rightarrow> error + bool" where
  "missing_too_old table [] doskip = Inr doskip"
| "missing_too_old table (miss # rest) doskip =
     (case (if CHR ''/'' \<in> set miss
            then (case split_on (CHR ''/'') miss of
                    [nam, ver] \<Rightarrow> Inr (nam, ver)
                  | _ \<Rightarrow> Inl ValueError)
            else Inr (miss, ''0.0'')) of
        Inl e \<Rightarrow> Inl e
      | Inr (nam, ver) \<Rightarrow>
          (case table nam of
             None \<Rightarrow> missing_too_old table rest doskip
           | Some minimum \<Rightarrow>
               (case sversion_lt ver minimum of
                  Inl e \<Rightarrow> Inl e
                | Inr old \<Rightarrow> missing_too_old table rest (doskip \<or> old))))"

text \<open>
  What the pass decides before it builds anything:
  \<^item> \<open>Ignored\<close>: the recipe has a record and is not tried again (the first \<open>continue\<close>);
  \<^item> \<open>Abandoned\<close>: an exception ended the pass;
  \<^item> \<open>Skipped why\<close>: the record gets the status \<open>skipped\<close> with this reason;
  \<^item> \<open>Satisfied\<close>: nothing is missing;
  \<^item> \<open>Proceed\<close>: the dependencies and the recipe are to be built.
  Every decision but the first carries the dictionary of the pass.
\<close>

datatype decision =
    Ignored
  | Abandoned objects
  | Skipped string objects
  | Satisfied objects
  | Proceed objects

definition plan :: "config \<Rightarrow> recipe \<Rightarrow> bstate \<Rightarrow> decision" where
  "plan cfg r st =
     (if (case statdict st (ebfile r) of
            None \<Rightarrow> False
          | Some x \<Rightarrow> status x \<noteq> ''skipped'' \<or> checkskipped cfg = False)
      then Ignored
      else
        let d = default_template (ebfile r) (json_loads (trydate0 r) (s3 st)) in
        if raises r Sweep \<or> raises r ReadEasyconfig then Abandoned d
        else
          (case toolchain_policy (min_toolchains cfg) (easyconfig r) of
             Inl e \<Rightarrow> Abandoned d
           | Inr (Skip why) \<Rightarrow> Skipped why d
           | Inr Eligible \<Rightarrow>
               (case class_filter (include_opt cfg) (exclude_opt cfg) (cls (easyconfig r)) of
                  Some why \<Rightarrow> Skipped why d
                | None \<Rightarrow>
                    if osdep (easyconfig r) \<noteq> [] \<and> raises r InstallOsDeps then Abandoned d
                    else if raises r QueryMissing then Abandoned d
                    else if missing_empty (themissing r) then Satisfied d
                    else if errors_in_missing (themissing r) (json_dumps d) \<noteq> []
                    then Skipped ''dependencies have errors'' d
                    else
                      (case missing_too_old (min_toolchains cfg)
                              (missing_keys (themissing r)) False of
                         Inl e \<Rightarrow> Abandoned d
                       | Inr True \<Rightarrow> Skipped ''dependency requires too old toolchain'' d
                       | Inr False \<Rightarrow> Proceed d))))"

subsection \<open>The executor: the dependencies, then the recipe\<close>

text \<open>The command lines; \<open>CUDA\<close> in the name adds \<open>--ignore-test-failure\<close>.\<close>

definition dep_cmdline :: "string \<Rightarrow> string" where
  "dep_cmdline ebf =
     (if contains ''CUDA'' ebf then ''eb --umask=002 --ignore-test-failure '' @ ebf
      else ''eb --umask=002 '' @ ebf)"

definition target_cmdline :: "recipe \<Rightarrow> string" where
  "target_cmdline r =
     (if contains ''CUDA'' (ebfile r)
      then ''eb --robot --umask=002 --ignore-test-failure '' @ ebpath r
      else ''eb --robot --umask=002 '' @ ebpath r)"

text \<open>\<open>s3_put_json(statdict)\<close>, and the end of a pass with the dictionary \<open>d\<close>.\<close>

definition put_json :: "objects \<Rightarrow> bstate \<Rightarrow> bstate" where
  "put_json d st = st\<lparr>s3 := json_dumps d\<rparr>"

definition leave :: "objects \<Rightarrow> bstate \<Rightarrow> bstate" where
  "leave d st = st\<lparr>statdict := json_dumps d\<rparr>"

text \<open>
  The loop over the dependencies. \<open>Done\<close> is the state with which the pass ends (a
  dependency failed, or the copy of its log raised); \<open>Next\<close> is the dictionary and the
  state with which the pass goes on to the recipe itself.
\<close>

datatype flow = Done bstate | Next objects bstate

fun dep_loop :: "recipe \<Rightarrow> string list \<Rightarrow> objects \<Rightarrow> bstate \<Rightarrow> flow" where
  "dep_loop r [] d st = Next d st"
| "dep_loop r (ebf # rest) d st =
     (let retcode = eb r (dep_cmdline ebf);
          st1 = st\<lparr>eb_runs := eb_runs st @ [dep_cmdline ebf]\<rparr>;
          d1 = default_template ebf d;
          d2 = set_fields ebf (\<lambda>x. x\<lparr>returncode := retcode, trydate := dep_trydate r ebf,
                 buildtime := dep_buildtime r ebf\<rparr>) d1
      in if retcode \<noteq> 0 then
           (let st2 = st1\<lparr>errcnt := errcnt st1 + 1, errpkg := errpkg st1 @ [ebf]\<rparr> in
            if raises r (CopyLog ebf) then Done (leave d2 st2)
            else
              let d3 = set_fields ebf (\<lambda>x. x\<lparr>status := ''error'', reason := ''n/a'',
                         errorcount := errorcount x + 1\<rparr>) d2
              in Done (leave d3 (put_json d3 st2)))
         else
           (let d3 = set_fields ebf (\<lambda>x. x\<lparr>status := ''success'',
                       reason := ''easyconfig built successfully'', modules := None\<rparr>) d2;
                st2 = st1\<lparr>bldcnt := bldcnt st1 + 1\<rparr>
            in dep_loop r rest d3 (put_json d3 st2)))"

text \<open>
  The build of the recipe itself. At its end the dictionary is written and read back.
\<close>

definition build_target :: "recipe \<Rightarrow> objects \<Rightarrow> bstate \<Rightarrow> bstate" where
  "build_target r d st =
     (let retcode = eb r (target_cmdline r);
          st1 = st\<lparr>eb_runs := eb_runs st @ [target_cmdline r]\<rparr>;
          d1 = set_fields (ebfile r) (\<lambda>x. x\<lparr>returncode := retcode,
                 buildtime := target_buildtime r\<rparr>) d
      in if retcode \<noteq> 0 then
           (let st2 = st1\<lparr>errcnt := errcnt st1 + 1, errpkg := errpkg st1 @ [ebfile r]\<rparr> in
            if raises r (CopyLog (ebfile r)) \<or> raises r QueryMissingAgain then leave d1 st2
            else
              let d2 = set_fields (ebfile r) (\<lambda>x. x\<lparr>status := ''error'', reason := ''n/a'',
                         modules := Some (themissing2 r)\<rparr>) d1
              in leave d2 (put_json d2 st2))
         else
           (let d2 = set_fields (ebfile r) (\<lambda>x. x\<lparr>status := ''success'',
                       reason := ''easyconfig built successfully'', modules := None\<rparr>) d1
            in if raises r TarSoftware then leave d2 st1
               else if new_tars r then
                 (let st2 = st1\<lparr>bldcnt := bldcnt st1 + 1\<rparr> in
                  if raises r Upload then leave d2 st2 else leave d2 (put_json d2 st2))
               else leave d2 (put_json d2 st1)))"

subsection \<open>One pass, and the run\<close>

text \<open>
  The body of the loop for one easyconfig, from the line that sets \<open>trydate\<close>: the
  counters, the decision, and what follows from it.
\<close>

definition build_one :: "config \<Rightarrow> recipe \<Rightarrow> bstate \<Rightarrow> bstate" where
  "build_one cfg r st0 =
     (let st = st0\<lparr>ebcnt := ebcnt st0 + 1, ebskipped := ebskipped st0 + 1\<rparr> in
      case plan cfg r st of
        Ignored \<Rightarrow> st
      | Abandoned d \<Rightarrow> leave d st
      | Skipped why d \<Rightarrow>
          (let d' = set_fields (ebfile r) (\<lambda>x. x\<lparr>status := ''skipped'', reason := why\<rparr>) d
           in leave d' (put_json d' st))
      | Satisfied d \<Rightarrow>
          (let d' = set_fields (ebfile r) (\<lambda>x. x\<lparr>status := ''success'',
                      reason := ''easyconfig built successfully''\<rparr>) d
           in leave d' (put_json d' st))
      | Proceed d \<Rightarrow>
          (let st1 = st\<lparr>ebskipped := ebskipped st - 1\<rparr> in
           if raises r Download then leave d st1
           else
             (case dep_loop r (dependencies (themissing r)) d st1 of
                Done st' \<Rightarrow> st'
              | Next d' st' \<Rightarrow> build_target r d' st')))"

text \<open>
  The run over the easyconfigs the walk yields (the newest one of every directory that
  has one): \<open>statdict\<close> is read from the store once before the loop.
\<close>

definition initial_state :: "store \<Rightarrow> bstate" where
  "initial_state doc =
     \<lparr>statdict = doc, s3 = doc, ebcnt = 0, ebskipped = 0, bldcnt = 0, errcnt = 0,
      errpkg = [], eb_runs = []\<rparr>"

definition build_all_eb :: "config \<Rightarrow> recipe list \<Rightarrow> store \<Rightarrow> bstate" where
  "build_all_eb cfg recipes doc = fold (build_one cfg) recipes (initial_state doc)"

subsection \<open>The shape of the dictionary of a pass\<close>

text \<open>
  In every dictionary a pass works on, a key refers to its own loaded object or to the
  template, and every object referred to exists.
\<close>

definition wf_objects :: "objects \<Rightarrow> bool" where
  "wf_objects d =
     (heap d Template \<noteq> None \<and>
      (\<forall>k r. refs d k = Some r \<longrightarrow> (r = Loaded k \<or> r = Template) \<and> heap d r \<noteq> None))"

text \<open>The key \<open>t\<close> refers to the object loaded for it, which holds the record \<open>y\<close>.\<close>

definition loaded_record :: "objects \<Rightarrow> string \<Rightarrow> build_status \<Rightarrow> bool" where
  "loaded_record d t y =
     (wf_objects d \<and> refs d t = Some (Loaded t) \<and> heap d (Loaded t) = Some y)"

section \<open>The idle monitor\<close>

subsection \<open>The idle state file: \<open>AWSBoto._monitor_save_idle_state\<close>\<close>

text \<open>
  The idle state file is its content, a \<open>string\<close> (empty when the file does not exist
  yet: mode \<open>'a'\<close> creates it). It is opened in text mode, so reading translates
  \<open>\r\n\<close> and a lone \<open>\r\<close> to \<open>\n\<close>, and \<open>readlines\<close> cuts after every \<open>\n\<close>,
  keeping it at the end of the line.
\<close>

fun universal_newlines :: "string \<Rightarrow> string" where
  "universal_newlines [] = []"
| "universal_newlines [c] = [if c = CHR 0x0D then CHR 0x0A else c]"
| "universal_newlines (c # d # ds) =
     (if c = CHR 0x0D \<and> d = CHR 0x0A then CHR 0x0A # universal_newlines ds
      else if c = CHR 0x0D then CHR 0x0A # universal_newlines (d # ds)
      else c # universal_newlines (d # ds))"

fun split_lines :: "string \<Rightarrow> string list" where
  "split_lines [] = []"
| "split_lines (c # cs) =
     (if c = CHR 0x0A then [c] # split_lines cs
      else (case split_lines cs of [] \<Rightarrow> [[c]] | l # ls \<Rightarrow> (c # l) # ls))"

definition readlines :: "string \<Rightarrow> string list" where
  "readlines file = split_lines (universal_newlines file)"

text \<open>
  The loop \<open>for state in reversed(states)\<close>: it counts the lines that strip to \<open>'1'\<close>
  and stops at the first other line. The argument is the reversed list.
\<close>

fun count_idle :: "string list \<Rightarrow> nat" where
  "count_idle [] = 0"
| "count_idle (state # states) =
     (if strip state = ''1'' then 1 + count_idle states else 0)"

text \<open>
  \<open>_monitor_save_idle_state(is_system_idle, min_idle_cnt)\<close> appends one line to the
  file, reads the file back and returns \<open>count >= min_idle_cnt\<close>. The model returns
  the new file content with the result.
\<close>

definition monitor_save_idle_state :: "bool \<Rightarrow> int \<Rightarrow> string \<Rightarrow> string \<times> bool" where
  "monitor_save_idle_state is_system_idle min_idle_cnt file =
     (let file' = file @ (if is_system_idle then ''1'' @ [CHR 0x0A] else ''0'' @ [CHR 0x0A]);
          states = readlines file';
          count = count_idle (rev states)
      in (file', int count \<ge> min_idle_cnt))"

subsection \<open>One sample: \<open>AWSBoto._monitor_is_idle\<close>\<close>

text \<open>
  What one invocation reads from the machine: the result of \<open>_monitor_users_logged_in\<close>,
  \<open>psutil.cpu_percent\<close>, the differences of the disk and network counters over the
  window, and the two process listings. A process of the first listing is its name with
  what \<open>io_counters().write_bytes\<close> gives (\<open>None\<close> when the call raises
  \<open>NoSuchProcess\<close> or \<open>AccessDenied\<close>, which the loop passes over); a process of the
  second listing is its name with \<open>info['cpu_percent']\<close> (\<open>None\<close> when psutil could
  not read it). Percentages and rates are rationals: the quotient of two integers
  compared with an integer threshold gives in floating point what it gives exactly.
\<close>

record sample =
  users_logged_in :: bool
  cpu_percent :: rat
  write_diff :: int
  bytes_sent_diff :: int
  bytes_recv_diff :: int
  io_procs :: "(string \<times> int option) list"
  cpu_procs :: "(string \<times> rat option) list"

definition CPU_THRESHOLD :: rat where "CPU_THRESHOLD = 20"
definition NET_READ_THRESHOLD :: rat where "NET_READ_THRESHOLD = 1000"
definition NET_WRITE_THRESHOLD :: rat where "NET_WRITE_THRESHOLD = 1000"
definition DISK_WRITE_THRESHOLD :: rat where "DISK_WRITE_THRESHOLD = 100000"
definition PROCESS_CPU_THRESHOLD :: rat where "PROCESS_CPU_THRESHOLD = 10"

definition DISK_WRITE_EXCLUSIONS :: "string list" where
  "DISK_WRITE_EXCLUSIONS =
     [''systemd'', ''systemd-journald'', ''chronyd'', ''sshd'', ''auditd'', ''agetty'']"

text \<open>
  The loop over the processes under \<open>write_per_second > DISK_WRITE_THRESHOLD\<close>: true when
  it reaches its \<open>return\<close>, at the first process outside the exclusions whose written
  bytes are positive.
\<close>

fun disk_writer :: "(string \<times> int option) list \<Rightarrow> bool" where
  "disk_writer [] = False"
| "disk_writer ((name, io) # procs) =
     (if name \<in> set DISK_WRITE_EXCLUSIONS then disk_writer procs
      else (case io of
              None \<Rightarrow> disk_writer procs
            | Some write_bytes \<Rightarrow> if write_bytes > 0 then True else disk_writer procs))"

text \<open>
  The last loop compares every process's CPU percentage with the threshold and only
  prints (its \<open>return False\<close> is commented out in the source). Comparing \<open>None\<close> with a
  number raises \<open>TypeError\<close>.
\<close>

fun process_cpu_loop :: "(string \<times> rat option) list \<Rightarrow> error + unit" where
  "process_cpu_loop [] = Inr ()"
| "process_cpu_loop ((name, cpu) # procs) =
     (if name \<notin> set DISK_WRITE_EXCLUSIONS
      then (case cpu of None \<Rightarrow> Inl TypeError | Some _ \<Rightarrow> process_cpu_loop procs)
      else process_cpu_loop procs)"

text \<open>
  \<open>_monitor_is_idle(interval, min_idle_cnt)\<close> on the file. The checks of the logged-in
  users and of the aggregate CPU percentage only print (their \<open>return\<close> statements are
  commented out in the source), so they do not show in the result.
  \<open>psutil.cpu_percent\<close> raises \<open>ValueError\<close> for a negative interval, and the division
  by an interval of 0 raises \<open>ZeroDivisionError\<close>.
\<close>

definition monitor_is_idle :: "int \<Rightarrow> int \<Rightarrow> sample \<Rightarrow> string \<Rightarrow> error + string \<times> bool" where
  "monitor_is_idle interval min_idle_cnt s file =
     (if interval < 0 then Inl ValueError
      else if interval = 0 then Inl ZeroDivisionError
      else
        let write_per_second = (of_int (write_diff s) :: rat) / of_int interval;
            bytes_sent_per_second = (of_int (bytes_sent_diff s) :: rat) / of_int interval;
            bytes_recv_per_second = (of_int (bytes_recv_diff s) :: rat) / of_int interval
        in
          if write_per_second > DISK_WRITE_THRESHOLD \<and> disk_writer (io_procs s)
          then Inr (monitor_save_idle_state False min_idle_cnt file)
          else if bytes_sent_per_second > NET_WRITE_THRESHOLD
                  \<or> bytes_recv_per_second > NET_READ_THRESHOLD
          then Inr (monitor_save_idle_state False min_idle_cnt file)
          else (case process_cpu_loop (cpu_procs s) of
                  Inl e \<Rightarrow> Inl e
                | Inr _ \<Rightarrow> Inr (monitor_save_idle_state True min_idle_cnt file)))"

subsection \<open>The monitor: \<open>AWSBoto.monitor_ec2\<close>\<close>

text \<open>
  What the monitor reads besides the sample: the instance metadata (an entry that cannot
  be retrieved is the empty string), the result of \<open>monitor_has_instance_failed\<close>, the
  time of day in microseconds since midnight and the body of the cost report. What it
  does is the list of its calls to \<open>send_email_ses\<close> (subject and body) and to
  \<open>ec2_terminate_instance\<close>, in order. The result is the new idle state file, the
  calls and the value returned (\<open>None\<close> after the cost report).
\<close>

record monitor_env =
  instance_id :: string
  public_ip :: string
  machine :: sample
  instance_failed :: bool
  time_of_day :: nat
  cost_report :: string

datatype action =
    SendEmail string string
  | TerminateInstance string

definition monitor_ec2 ::
  "monitor_env \<Rightarrow> string \<Rightarrow> error + string \<times> action list \<times> bool option" where
  "monitor_ec2 env file =
     (case monitor_is_idle 60 72 (machine env) file of
        Inl e \<Rightarrow> Inl e
      | Inr (file', idle) \<Rightarrow>
          if idle \<or> instance_failed env then
            (if public_ip env \<noteq> ''''
             then Inr (file',
                    [SendEmail
                       (''Terminating idle instance '' @ public_ip env @ '' ('' @ instance_id env @ '')'')
                       ''Instance was detected as idle and terminated'',
                     TerminateInstance (public_ip env)],
                    Some True)
             else Inr (file', [], Some False))
          else if 82800000000 \<ge> time_of_day env \<or> time_of_day env > 86399000000
          then Inr (file', [], Some True)
          else Inr (file',
                 [SendEmail (''AWS-EB AWS cost report ('' @ instance_id env @ '')'') (cost_report env)],
                 None))"

text \<open>The instances a run of the monitor asks to terminate.\<close>

fun terminations :: "action list \<Rightarrow> string list" where
  "terminations [] = []"
| "terminations (SendEmail subject body # acts) = terminations acts"
| "terminations (TerminateInstance ip # acts) = ip # terminations acts"

text \<open>
  The idle log as the specification describes it: a sequence of samples, \<open>True\<close> for idle
  (the line \<open>1\<close>) and \<open>False\<close> for active (the line \<open>0\<close>), and the number of idle samples
  at its end.
\<close>

definition sample_line :: "bool \<Rightarrow> string" where
  "sample_line idle = (if idle then ''1'' else ''0'') @ [CHR 0x0A]"

definition idle_log :: "bool list \<Rightarrow> string" where
  "idle_log samples = concat (map sample_line samples)"

definition trailing_idle :: "bool list \<Rightarrow> nat" where
  "trailing_idle samples = length (takeWhile (\<lambda>idle. idle) (rev samples))"

section \<open>Example inputs\<close>

text \<open>
  Inputs for the worked examples of the second chapter: a configuration with the default
  table, and a recipe \<open>app-1.0\<close> on the toolchain \<open>GCC-12.3.0\<close> whose missing-modules
  query answers \<open>miss\<close> and whose \<open>eb\<close> commands return what \<open>run\<close> gives; no auxiliary
  step raises.
\<close>

definition example_config :: "bool \<Rightarrow> config" where
  "example_config recheck =
     \<lparr>checkskipped = recheck, min_toolchains = default_min_toolchains,
      include_opt = [], exclude_opt = []\<rparr>"

definition example_recipe :: "missing \<Rightarrow> (string \<Rightarrow> int) \<Rightarrow> recipe" where
  "example_recipe miss run =
     \<lparr>ebfile = ''app-1.0.eb'', ebpath = ''/e/app-1.0.eb'', trydate0 = ''10:00'',
      easyconfig = \<lparr>pkg_name = ''app'', pkg_version = ''1.0'', tc_name = ''GCC'',
        tc_version = ''12.3.0'', osdep = [], cls = ''tools''\<rparr>,
      themissing = miss, themissing2 = miss, eb = run, raises = (\<lambda>s. False),
      dep_trydate = (\<lambda>ebf. ''10:05''), dep_buildtime = (\<lambda>ebf. 60),
      target_buildtime = 90, new_tars = True\<rparr>"

text \<open>
  A missing-modules answer with one dependency before the recipe itself, and a store in
  which the recipe has a \<open>skipped\<close> record.
\<close>

definition example_chain :: missing where
  "example_chain = Modules [(''lib/2.0'', ''lib-2.0.eb''), (''app/1.0'', ''app-1.0.eb'')]"

definition example_skipped :: store where
  "example_skipped = [''app-1.0.eb'' \<mapsto> statdict_template ''09:00'' \<lparr>status := ''skipped''\<rparr>]"

chapter \<open>Properties\<close>

section \<open>The idle monitor\<close>

lemma universal_newlines_sample_line:
  "universal_newlines (sample_line b @ rest) = sample_line b @ universal_newlines rest"
  by (cases rest) (simp_all add: sample_line_def)

lemma universal_newlines_idle_log: "universal_newlines (idle_log ss) = idle_log ss"
  by (induction ss) (simp_all add: idle_log_def universal_newlines_sample_line)

lemma split_lines_sample_line:
  "split_lines (sample_line b @ rest) = sample_line b # split_lines rest"
  by (simp add: sample_line_def)

lemma readlines_idle_log: "readlines (idle_log ss) = map sample_line ss"
  unfolding readlines_def universal_newlines_idle_log
  by (induction ss) (simp_all add: idle_log_def split_lines_sample_line)

lemma strip_sample_line: "strip (sample_line b) = ''1'' \<longleftrightarrow> b"
  by (simp add: strip_def sample_line_def isspace_def)

lemma count_idle_sample_lines:
  "count_idle (map sample_line bs) = length (takeWhile (\<lambda>idle. idle) bs)"
  by (induction bs) (simp_all add: strip_sample_line)

lemma idle_log_snoc: "idle_log ss @ sample_line b = idle_log (ss @ [b])"
  by (simp add: idle_log_def)

lemma save_idle_state_log:
  "monitor_save_idle_state b m (idle_log ss)
     = (idle_log (ss @ [b]), m \<le> int (trailing_idle (ss @ [b])))"
proof -
  have app: "idle_log ss @ (if b then ''1'' @ [CHR 0x0A] else ''0'' @ [CHR 0x0A])
               = idle_log (ss @ [b])"
    by (cases b) (simp_all add: idle_log_def sample_line_def)
  have "count_idle (rev (readlines (idle_log (ss @ [b])))) = trailing_idle (ss @ [b])"
    using count_idle_sample_lines [of "rev (ss @ [b])"]
    by (simp only: readlines_idle_log trailing_idle_def rev_map)
  then show ?thesis
    unfolding monitor_save_idle_state_def Let_def app by simp
qed

lemma trailing_idle_all_idle: "trailing_idle (replicate n True) = n"
  by (simp add: trailing_idle_def)

lemma trailing_idle_active: "trailing_idle (ss @ [False]) = 0"
  by (simp add: trailing_idle_def)

lemma monitor_is_idle_log:
  assumes "monitor_is_idle 60 72 s (idle_log ss) = Inr (file', confirmed)"
  shows "\<exists>b. file' = idle_log (ss @ [b]) \<and> (confirmed \<longleftrightarrow> 72 \<le> trailing_idle (ss @ [b]))"
proof -
  from assms obtain b where "monitor_save_idle_state b 72 (idle_log ss) = (file', confirmed)"
    unfolding monitor_is_idle_def Let_def
    by (auto split: if_splits sum.splits)
  then have "file' = idle_log (ss @ [b])" and "confirmed \<longleftrightarrow> 72 \<le> int (trailing_idle (ss @ [b]))"
    unfolding save_idle_state_log by simp_all
  then show ?thesis by auto
qed

lemma monitor_ec2_terminations:
  assumes "monitor_is_idle 60 72 (machine env) file = Inr (file', confirmed)"
  shows "\<exists>acts ret. monitor_ec2 env file = Inr (file', acts, ret) \<and>
           terminations acts =
             (if (confirmed \<or> instance_failed env) \<and> public_ip env \<noteq> ''''
              then [public_ip env] else [])"
  using assms unfolding monitor_ec2_def by simp

text \<open>
  Claim C9, as amended. When the idle state file holds the samples \<open>ss\<close>, saving a sample
  \<open>b\<close> appends its line and returns whether the number of idle samples at the end of the
  appended log has reached \<open>min_idle_cnt\<close>; 72 idle samples followed by an active one give
  the count 0. The monitor runs the sampling with the minimum 72, so its idle-confirmed
  result is true exactly when that count is at least 72. On an idle-confirmed result (or a
  failed reachability check) the monitor asks for its own termination once when the
  metadata gave it its public IP address, and for no termination when the address is
  empty.
\<close>

theorem idle_monitor_trailing_count:
  "monitor_save_idle_state b m (idle_log ss)
     = (idle_log (ss @ [b]), m \<le> int (trailing_idle (ss @ [b])))
   \<and> trailing_idle (replicate 72 True @ [False]) = 0
   \<and> (monitor_is_idle 60 72 (machine env) (idle_log ss) = Inr (file', confirmed) \<longrightarrow>
        (\<exists>b. file' = idle_log (ss @ [b]) \<and> (confirmed \<longleftrightarrow> 72 \<le> trailing_idle (ss @ [b]))) \<and>
        (\<exists>acts ret. monitor_ec2 env (idle_log ss) = Inr (file', acts, ret) \<and>
           terminations acts =
             (if (confirmed \<or> instance_failed env) \<and> public_ip env \<noteq> ''''
              then [public_ip env] else [])))"
  using save_idle_state_log [of b m ss] trailing_idle_active [of "replicate 72 True"]
    monitor_is_idle_log [of "machine env" ss file' confirmed]
    monitor_ec2_terminations [of env "idle_log ss" file' confirmed]
  by blast

lemma quiet_72nd_sample:
  "monitor_is_idle 60 72
     \<lparr>users_logged_in = False, cpu_percent = 1, write_diff = 0, bytes_sent_diff = 0,
      bytes_recv_diff = 0, io_procs = [], cpu_procs = []\<rparr>
     (idle_log (replicate 71 True))
   = Inr (idle_log (replicate 72 True), True)"
proof -
  have "replicate 71 True @ [True] = replicate (Suc 71) True"
    by (simp only: replicate_append_same replicate_Suc)
  then have "replicate 71 True @ [True] = replicate 72 True"
    by simp
  then show ?thesis
    unfolding monitor_is_idle_def Let_def
    by (simp add: save_idle_state_log trailing_idle_all_idle
        DISK_WRITE_THRESHOLD_def NET_WRITE_THRESHOLD_def NET_READ_THRESHOLD_def)
qed

theorem idle_monitor_trailing_count_witness:
  "monitor_save_idle_state False 72 (idle_log (replicate 72 True))
     = (idle_log (replicate 72 True @ [False]), False)
   \<and> (\<exists>acts ret.
        monitor_ec2
          \<lparr>instance_id = ''i-0123'', public_ip = ''203.0.113.7'',
           machine = \<lparr>users_logged_in = False, cpu_percent = 1, write_diff = 0,
             bytes_sent_diff = 0, bytes_recv_diff = 0, io_procs = [], cpu_procs = []\<rparr>,
           instance_failed = False, time_of_day = 0, cost_report = ''''\<rparr>
          (idle_log (replicate 71 True))
        = Inr (idle_log (replicate 72 True), acts, ret) \<and>
        terminations acts = [''203.0.113.7''])"
proof -
  have a: "monitor_save_idle_state False 72 (idle_log (replicate 72 True))
     = (idle_log (replicate 72 True @ [False]), False)"
    using idle_monitor_trailing_count [of False 72 "replicate 72 True"]
    by (simp add: trailing_idle_active)
  have b: "\<exists>acts ret.
        monitor_ec2
          \<lparr>instance_id = ''i-0123'', public_ip = ''203.0.113.7'',
           machine = \<lparr>users_logged_in = False, cpu_percent = 1, write_diff = 0,
             bytes_sent_diff = 0, bytes_recv_diff = 0, io_procs = [], cpu_procs = []\<rparr>,
           instance_failed = False, time_of_day = 0, cost_report = ''''\<rparr>
          (idle_log (replicate 71 True))
        = Inr (idle_log (replicate 72 True), acts, ret) \<and>
        terminations acts = [''203.0.113.7'']"
    using idle_monitor_trailing_count [of True 72 "replicate 71 True"
        "\<lparr>instance_id = ''i-0123'', public_ip = ''203.0.113.7'',
           machine = \<lparr>users_logged_in = False, cpu_percent = 1, write_diff = 0,
             bytes_sent_diff = 0, bytes_recv_diff = 0, io_procs = [], cpu_procs = []\<rparr>,
           instance_failed = False, time_of_day = 0, cost_report = ''''\<rparr>"
        "idle_log (replicate 72 True)" True]
      quiet_72nd_sample
    by simp
  from a b show ?thesis by blast
qed

text \<open>
  Claim C9 as stated fails where the metadata service gives no public IP address: the
  72nd consecutive idle sample is recorded and the idle-confirmed result is true, but the
  monitor terminates nothing and returns \<open>False\<close>.
\<close>

theorem idle_confirmed_no_ip_counterexample:
  "monitor_ec2
     \<lparr>instance_id = ''i-0123'', public_ip = '''',
      machine = \<lparr>users_logged_in = False, cpu_percent = 1, write_diff = 0,
        bytes_sent_diff = 0, bytes_recv_diff = 0, io_procs = [], cpu_procs = []\<rparr>,
      instance_failed = False, time_of_day = 0, cost_report = ''''\<rparr>
     (idle_log (replicate 71 True))
   = Inr (idle_log (replicate 72 True), [], Some False)"
  unfolding monitor_ec2_def by (simp add: quiet_72nd_sample)

lemma disk_writer_iff:
  "disk_writer procs \<longleftrightarrow>
     (\<exists>(name, io) \<in> set procs. name \<notin> set DISK_WRITE_EXCLUSIONS \<and> (\<exists>w. io = Some w \<and> 0 < w))"
  by (induction procs rule: disk_writer.induct) (auto split: option.splits)

lemma process_cpu_loop_ok:
  "process_cpu_loop procs = Inr () \<longleftrightarrow>
     (\<forall>(name, cpu) \<in> set procs. name \<notin> set DISK_WRITE_EXCLUSIONS \<longrightarrow> cpu \<noteq> None)"
  by (induction procs rule: process_cpu_loop.induct) (auto split: option.splits)

lemma process_cpu_loop_error: "process_cpu_loop procs = Inl e \<Longrightarrow> e = TypeError"
  by (induction procs rule: process_cpu_loop.induct) (auto split: option.splits if_splits)

lemma save_idle_state_file:
  "fst (monitor_save_idle_state b m file) = file @ sample_line b"
  by (simp add: monitor_save_idle_state_def Let_def sample_line_def)

text \<open>
  Claim C8, as amended. For a positive sampling interval, the sample appended to the idle
  log is "active" (0) exactly when the disk write rate is above its threshold and some
  process outside the allowlist has written bytes, or the rate of bytes sent or of bytes
  received is above its threshold; otherwise, when the CPU percentage of every process
  outside the allowlist could be read, the sample appended is "idle" (1), and when one
  could not be read the sampling raises \<open>TypeError\<close> and appends nothing. Logged-in users,
  the aggregate CPU percentage and the per-process CPU percentages do not enter the
  sample.
\<close>

theorem sample_recorded_active_iff:
  assumes "0 < interval"
  defines "active \<equiv> \<lambda>s.
      (100000 < (of_int (write_diff s) :: rat) / of_int interval \<and>
        (\<exists>(name, io) \<in> set (io_procs s).
            name \<notin> set DISK_WRITE_EXCLUSIONS \<and> (\<exists>w. io = Some w \<and> 0 < w)))
      \<or> 1000 < (of_int (bytes_sent_diff s) :: rat) / of_int interval
      \<or> 1000 < (of_int (bytes_recv_diff s) :: rat) / of_int interval"
  shows "monitor_is_idle interval m s file =
     (if active s then Inr (monitor_save_idle_state False m file)
      else if \<forall>(name, cpu) \<in> set (cpu_procs s). name \<notin> set DISK_WRITE_EXCLUSIONS \<longrightarrow> cpu \<noteq> None
      then Inr (monitor_save_idle_state True m file)
      else Inl TypeError)
   \<and> fst (monitor_save_idle_state False m file) = file @ ''0'' @ [CHR 0x0A]
   \<and> fst (monitor_save_idle_state True m file) = file @ ''1'' @ [CHR 0x0A]"
proof -
  have cpu: "process_cpu_loop (cpu_procs s) = Inr () \<or> process_cpu_loop (cpu_procs s) = Inl TypeError"
    using process_cpu_loop_error [of "cpu_procs s"] by (cases "process_cpu_loop (cpu_procs s)") auto
  have "monitor_is_idle interval m s file =
     (if active s then Inr (monitor_save_idle_state False m file)
      else if \<forall>(name, cpu) \<in> set (cpu_procs s). name \<notin> set DISK_WRITE_EXCLUSIONS \<longrightarrow> cpu \<noteq> None
      then Inr (monitor_save_idle_state True m file)
      else Inl TypeError)"
    using assms(1) cpu
    unfolding monitor_is_idle_def Let_def active_def disk_writer_iff
      process_cpu_loop_ok [symmetric]
      DISK_WRITE_THRESHOLD_def NET_WRITE_THRESHOLD_def NET_READ_THRESHOLD_def
    by auto
  then show ?thesis
    by (simp add: save_idle_state_file sample_line_def)
qed

theorem sample_recorded_active_iff_witness:
  "monitor_is_idle 60 72
     \<lparr>users_logged_in = False, cpu_percent = 1, write_diff = 0, bytes_sent_diff = 120000,
      bytes_recv_diff = 0, io_procs = [], cpu_procs = []\<rparr> ''''
   = Inr (''0'' @ [CHR 0x0A], False)"
  using sample_recorded_active_iff [of 60 72
      "\<lparr>users_logged_in = False, cpu_percent = 1, write_diff = 0, bytes_sent_diff = 120000,
      bytes_recv_diff = 0, io_procs = [], cpu_procs = []\<rparr>" "''''"]
  by (simp add: monitor_save_idle_state_def readlines_def strip_def isspace_def)

text \<open>
  Claim C8 as stated fails: with a user logged in, the aggregate CPU at 100 percent and a
  process at 95 percent, but no disk writes and no network traffic, the sample appended
  to the (empty) idle log is "idle" (1).
\<close>

theorem busy_sample_recorded_idle_counterexample:
  "monitor_is_idle 60 72
     \<lparr>users_logged_in = True, cpu_percent = 100, write_diff = 0, bytes_sent_diff = 0,
      bytes_recv_diff = 0, io_procs = [], cpu_procs = [(''python3'', Some 95)]\<rparr> ''''
   = Inr (''1'' @ [CHR 0x0A], False)"
  unfolding monitor_is_idle_def Let_def
  by (simp add: monitor_save_idle_state_def readlines_def strip_def isspace_def
      DISK_WRITE_EXCLUSIONS_def
      DISK_WRITE_THRESHOLD_def NET_WRITE_THRESHOLD_def NET_READ_THRESHOLD_def)

section \<open>Version comparison\<close>

lemma tuple_lt_first_difference:
  "take i x = take i y \<Longrightarrow> i < length x \<Longrightarrow> i < length y \<Longrightarrow> x ! i \<noteq> y ! i
   \<Longrightarrow> tuple_lt x y = part_lt (x ! i) (y ! i)"
proof (induction x y arbitrary: i rule: tuple_lt.induct)
  case (4 x xs y ys)
  then show ?case by (cases i) auto
qed simp_all

lemma tuple_lt_ints: "tuple_lt (map IntPart xs) (map IntPart ys) = Inr (xs < ys)"
  by (induction xs arbitrary: ys; case_tac ys) auto

lemma sversion_parts_numeric:
  "\<forall>p \<in> set ps. p \<noteq> [] \<and> list_all decimal_char p \<Longrightarrow>
   sversion_parts ps = Inr (map IntPart (map digits_value ps))"
  by (induction ps) (auto simp: isdigit_def isdigit_char_def int_of_digits_def list_all_iff)

lemma sversion_lt_numeric:
  assumes "\<forall>p \<in> set (split_on (CHR ''.'') a). p \<noteq> [] \<and> list_all decimal_char p"
    and "\<forall>p \<in> set (split_on (CHR ''.'') b). p \<noteq> [] \<and> list_all decimal_char p"
  shows "sversion_lt a b
    = Inr (map digits_value (split_on (CHR ''.'') a) < map digits_value (split_on (CHR ''.'') b))"
  unfolding sversion_lt_def sversion_def
    sversion_parts_numeric [OF assms(1)] sversion_parts_numeric [OF assms(2)]
  by (simp only: sum.case tuple_lt_ints)

lemma sversion_parts_kinds:
  "sversion_parts ps = Inr x \<Longrightarrow>
   length x = length ps \<and>
   (\<forall>i < length ps. x ! i = (if isdigit (ps ! i) then IntPart (digits_value (ps ! i))
                              else StrPart (ps ! i)))"
proof (induction ps arbitrary: x)
  case Nil
  then show ?case by simp
next
  case (Cons p ps)
  then show ?case
    by (auto simp: int_of_digits_def nth_Cons split: if_splits sum.splits nat.splits)
qed

lemma sversion_lt_first_difference:
  assumes "sversion a = Inr x" and "sversion b = Inr y"
    and "i < length x" and "i < length y" and "take i x = take i y" and "x ! i \<noteq> y ! i"
  shows "sversion_lt a b = part_lt (x ! i) (y ! i)"
  using assms tuple_lt_first_difference [of i x y]
  by (simp add: sversion_lt_def)

lemmas sversion_eval =
  sversion_lt_def sversion_def isdigit_def isdigit_char_def decimal_char_def
  int_of_digits_def digits_value_def digit_val_def

text \<open>
  Claim C2, as amended. \<open>sversion\<close> cuts a version at its dots, reads a part of digits as
  an integer and keeps any other part as a string. For two versions whose parts are all
  decimal numbers the comparison is the lexicographic order of the lists of integers (so
  it never fails on them). In general the first position where the two tuples differ
  decides: two integers compare as integers, two strings compare as strings, and an
  integer against a string raises \<open>TypeError\<close>: a non-numeric part is neither lower nor
  higher than a numeric one, and the comparison is not total.
\<close>

theorem sversion_comparison:
  "((\<forall>p \<in> set (split_on (CHR ''.'') a). p \<noteq> [] \<and> list_all decimal_char p) \<and>
    (\<forall>p \<in> set (split_on (CHR ''.'') b). p \<noteq> [] \<and> list_all decimal_char p) \<longrightarrow>
      sversion_lt a b
        = Inr (map digits_value (split_on (CHR ''.'') a) < map digits_value (split_on (CHR ''.'') b)))
   \<and> (sversion a = Inr x \<longrightarrow>
        length x = length (split_on (CHR ''.'') a) \<and>
        (\<forall>i < length x. x ! i =
           (if isdigit (split_on (CHR ''.'') a ! i)
            then IntPart (digits_value (split_on (CHR ''.'') a ! i))
            else StrPart (split_on (CHR ''.'') a ! i))))
   \<and> (sversion a = Inr x \<and> sversion b = Inr y \<and> i < length x \<and> i < length y \<and>
       take i x = take i y \<and> x ! i \<noteq> y ! i \<longrightarrow>
        (\<forall>m n. x ! i = IntPart m \<and> y ! i = IntPart n \<longrightarrow> sversion_lt a b = Inr (m < n)) \<and>
        (\<forall>s t. x ! i = StrPart s \<and> y ! i = StrPart t \<longrightarrow> sversion_lt a b = Inr (s < t)) \<and>
        (\<forall>m t. x ! i = IntPart m \<and> y ! i = StrPart t \<longrightarrow> sversion_lt a b = Inl TypeError) \<and>
        (\<forall>s n. x ! i = StrPart s \<and> y ! i = IntPart n \<longrightarrow> sversion_lt a b = Inl TypeError))"
proof (intro conjI impI)
  assume "(\<forall>p \<in> set (split_on (CHR ''.'') a). p \<noteq> [] \<and> list_all decimal_char p) \<and>
    (\<forall>p \<in> set (split_on (CHR ''.'') b). p \<noteq> [] \<and> list_all decimal_char p)"
  then show "sversion_lt a b
        = Inr (map digits_value (split_on (CHR ''.'') a) < map digits_value (split_on (CHR ''.'') b))"
    using sversion_lt_numeric [of a b] by blast
next
  assume "sversion a = Inr x"
  then show "length x = length (split_on (CHR ''.'') a)"
    using sversion_parts_kinds [of "split_on (CHR ''.'') a" x] by (simp add: sversion_def)
next
  assume "sversion a = Inr x"
  then show "\<forall>i < length x. x ! i =
           (if isdigit (split_on (CHR ''.'') a ! i)
            then IntPart (digits_value (split_on (CHR ''.'') a ! i))
            else StrPart (split_on (CHR ''.'') a ! i))"
    using sversion_parts_kinds [of "split_on (CHR ''.'') a" x] by (simp add: sversion_def)
next
  assume h: "sversion a = Inr x \<and> sversion b = Inr y \<and> i < length x \<and> i < length y \<and>
       take i x = take i y \<and> x ! i \<noteq> y ! i"
  then have eq: "sversion_lt a b = part_lt (x ! i) (y ! i)"
    using sversion_lt_first_difference [of a x b y i] by blast
  show "\<forall>m n. x ! i = IntPart m \<and> y ! i = IntPart n \<longrightarrow> sversion_lt a b = Inr (m < n)"
    using eq by simp
  show "\<forall>s t. x ! i = StrPart s \<and> y ! i = StrPart t \<longrightarrow> sversion_lt a b = Inr (s < t)"
    using eq by simp
  show "\<forall>m t. x ! i = IntPart m \<and> y ! i = StrPart t \<longrightarrow> sversion_lt a b = Inl TypeError"
    using eq by simp
  show "\<forall>s n. x ! i = StrPart s \<and> y ! i = IntPart n \<longrightarrow> sversion_lt a b = Inl TypeError"
    using eq by simp
qed

theorem sversion_comparison_witness:
  "sversion_lt ''10.3'' ''11.0'' = Inr True
   \<and> sversion ''11.2.rc1'' = Inr [IntPart 11, IntPart 2, StrPart ''rc1'']
   \<and> sversion_lt ''11.2.0'' ''11.2.rc1'' = Inl TypeError
   \<and> sversion_lt ''2021b'' ''2022a'' = Inr True"
proof -
  have a: "sversion ''11.2.0'' = Inr [IntPart 11, IntPart 2, IntPart 0]"
    by (simp add: sversion_eval)
  have b: "sversion ''11.2.rc1'' = Inr [IntPart 11, IntPart 2, StrPart ''rc1'']"
    by (simp add: sversion_eval)
  have c: "sversion ''2021b'' = Inr [StrPart ''2021b'']"
    by (simp add: sversion_eval)
  have d: "sversion ''2022a'' = Inr [StrPart ''2022a'']"
    by (simp add: sversion_eval)
  have "sversion_lt ''10.3'' ''11.0'' = Inr True"
    using sversion_comparison [of "''10.3''" "''11.0''"]
    by (simp add: decimal_char_def digits_value_def digit_val_def)
  moreover have "sversion_lt ''11.2.0'' ''11.2.rc1'' = Inl TypeError"
    using sversion_comparison [of "''11.2.0''" "''11.2.rc1''"
        "[IntPart 11, IntPart 2, IntPart 0]" "[IntPart 11, IntPart 2, StrPart ''rc1'']" 2] a b
    by simp
  moreover have "sversion_lt ''2021b'' ''2022a'' = Inr True"
    using sversion_comparison [of "''2021b''" "''2022a''"
        "[StrPart ''2021b'']" "[StrPart ''2022a'']" 0] c d
    by simp
  ultimately show ?thesis using b by simp
qed

text \<open>
  Claim C2 as stated fails: the comparison is not total. The version \<open>2022.05\<close> against
  the minimum \<open>2022a\<close> of the default table compares the integer 2022 with the string
  \<open>2022a\<close> and raises \<open>TypeError\<close>, where the claim has the non-numeric part lower, so
  that the version would not be below the minimum.
\<close>

theorem sversion_mixed_counterexample:
  "sversion_lt ''2022.05'' ''2022a'' = Inl TypeError"
  by (simp add: sversion_eval)

section \<open>The build loop\<close>

subsection \<open>The dictionary of a pass\<close>

lemma json_dumps_loads: "json_dumps (json_loads now doc) = doc"
  by (auto simp: json_dumps_def json_loads_def split: option.splits)

lemma wf_json_loads: "wf_objects (json_loads now doc)"
  by (auto simp: wf_objects_def json_loads_def split: option.splits)

lemma wf_default_template: "wf_objects d \<Longrightarrow> wf_objects (default_template k d)"
  by (auto simp: wf_objects_def default_template_def split: option.splits)

lemma wf_set_fields: "wf_objects d \<Longrightarrow> wf_objects (set_fields k f d)"
  by (auto simp: wf_objects_def set_fields_def split: option.splits)

lemma json_dumps_default_template:
  "json_dumps (default_template k (json_loads now doc))
     = (case doc k of None \<Rightarrow> doc(k \<mapsto> statdict_template now) | Some _ \<Rightarrow> doc)"
  by (auto simp: json_dumps_def default_template_def json_loads_def split: option.splits)

lemma json_dumps_set_fields_same:
  "json_dumps (set_fields k f d) k = map_option f (json_dumps d k)"
  by (auto simp: json_dumps_def set_fields_def split: option.splits)

lemma json_dumps_set_fields_loaded:
  "wf_objects d \<Longrightarrow> k \<noteq> t \<Longrightarrow> refs d t = Some (Loaded t) \<Longrightarrow>
   json_dumps (set_fields k f d) t = json_dumps d t"
  by (auto simp: wf_objects_def json_dumps_def set_fields_def split: option.splits)

lemma json_dumps_set_fields_absent:
  "refs d t = None \<Longrightarrow> json_dumps (set_fields k f d) t = None"
  by (auto simp: json_dumps_def set_fields_def split: option.splits)

lemma refs_set_fields: "refs (set_fields k f d) = refs d"
  by (auto simp: set_fields_def split: option.splits)

lemma refs_default_template_other: "k \<noteq> t \<Longrightarrow> refs (default_template k d) t = refs d t"
  by (auto simp: default_template_def split: option.splits)

lemma refs_default_template_same: "refs (default_template k d) k \<noteq> None"
  by (auto simp: default_template_def split: option.splits)

lemma json_dumps_default_template_other:
  "k \<noteq> t \<Longrightarrow> json_dumps (default_template k d) t = json_dumps d t"
  by (auto simp: json_dumps_def default_template_def split: option.splits)

lemma json_dumps_present:
  "wf_objects d \<Longrightarrow> refs d k \<noteq> None \<Longrightarrow> json_dumps d k \<noteq> None"
  by (auto simp: wf_objects_def json_dumps_def split: option.splits)

subsection \<open>A recipe with a record\<close>

lemma plan_counters [simp]:
  "plan cfg r (st\<lparr>ebcnt := a, ebskipped := b\<rparr>) = plan cfg r st"
  by (simp add: plan_def)

lemma plan_ignored:
  "statdict st (ebfile r) = Some x \<Longrightarrow> status x \<noteq> ''skipped'' \<or> \<not> checkskipped cfg
   \<Longrightarrow> plan cfg r st = Ignored"
  by (auto simp: plan_def)

lemma build_one_ignored:
  assumes "statdict st (ebfile r) = Some x" and "status x \<noteq> ''skipped'' \<or> \<not> checkskipped cfg"
  shows "build_one cfg r st = st\<lparr>ebcnt := ebcnt st + 1, ebskipped := ebskipped st + 1\<rparr>"
  using plan_ignored [OF assms] by (simp add: build_one_def)

lemma fold_build_one_ignored:
  "\<forall>r \<in> set rs. \<exists>x. statdict st (ebfile r) = Some x \<and> (status x \<noteq> ''skipped'' \<or> \<not> checkskipped cfg)
   \<Longrightarrow> fold (build_one cfg) rs st
       = st\<lparr>ebcnt := ebcnt st + int (length rs), ebskipped := ebskipped st + int (length rs)\<rparr>"
proof (induction rs arbitrary: st)
  case Nil
  then show ?case by simp
next
  case (Cons r rs)
  then obtain x where x: "statdict st (ebfile r) = Some x"
    "status x \<noteq> ''skipped'' \<or> \<not> checkskipped cfg" by auto
  let ?st = "st\<lparr>ebcnt := ebcnt st + 1, ebskipped := ebskipped st + 1\<rparr>"
  have one: "build_one cfg r st = ?st" by (rule build_one_ignored [OF x])
  have "\<forall>r \<in> set rs. \<exists>x. statdict ?st (ebfile r) = Some x \<and>
          (status x \<noteq> ''skipped'' \<or> \<not> checkskipped cfg)"
    using Cons.prems by simp
  from Cons.IH [OF this] show ?case by (simp add: one)
qed

text \<open>
  Claim C1. A pass over a recipe whose record the planner holds with a status other than
  \<open>skipped\<close>, or with any status while \<open>--check-skipped\<close> is unset, changes nothing but
  the two counters \<open>ebcnt\<close> and \<open>ebskipped\<close>: the pass counts as skipped, no \<open>eb\<close>
  command is run and the stored document is the same. So a run over recipes that all
  have such records in the store (the planner reads the store before the loop) leaves the
  store as it is and runs nothing; running it again gives the same store again.
\<close>

theorem recorded_recipe_pass_is_noop:
  "(statdict st (ebfile r) = Some x \<and> (status x \<noteq> ''skipped'' \<or> \<not> checkskipped cfg) \<longrightarrow>
      build_one cfg r st = st\<lparr>ebcnt := ebcnt st + 1, ebskipped := ebskipped st + 1\<rparr>)
   \<and> ((\<forall>r \<in> set rs. \<exists>x. doc (ebfile r) = Some x \<and>
           (status x \<noteq> ''skipped'' \<or> \<not> checkskipped cfg)) \<longrightarrow>
        s3 (build_all_eb cfg rs doc) = doc \<and>
        eb_runs (build_all_eb cfg rs doc) = [] \<and>
        ebskipped (build_all_eb cfg rs doc) = int (length rs) \<and>
        build_all_eb cfg rs (s3 (build_all_eb cfg rs doc)) = build_all_eb cfg rs doc)
   \<and> (doc (ebfile r) = Some x \<and> status x = ''success'' \<longrightarrow>
        s3 (build_all_eb cfg [r] doc) = doc \<and> eb_runs (build_all_eb cfg [r] doc) = [])"
proof (intro conjI impI)
  assume "statdict st (ebfile r) = Some x \<and> (status x \<noteq> ''skipped'' \<or> \<not> checkskipped cfg)"
  then show "build_one cfg r st = st\<lparr>ebcnt := ebcnt st + 1, ebskipped := ebskipped st + 1\<rparr>"
    using build_one_ignored [of st r x cfg] by blast
next
  assume h: "\<forall>r \<in> set rs. \<exists>x. doc (ebfile r) = Some x \<and>
           (status x \<noteq> ''skipped'' \<or> \<not> checkskipped cfg)"
  let ?st0 = "\<lparr>statdict = doc, s3 = doc, ebcnt = 0, ebskipped = 0, bldcnt = 0, errcnt = 0,
        errpkg = [], eb_runs = []\<rparr>"
  have run: "build_all_eb cfg rs doc
      = ?st0\<lparr>ebcnt := int (length rs), ebskipped := int (length rs)\<rparr>"
    unfolding build_all_eb_def initial_state_def
    using fold_build_one_ignored [of rs ?st0 cfg] h by simp
  show "s3 (build_all_eb cfg rs doc) = doc" by (simp add: run)
  show "eb_runs (build_all_eb cfg rs doc) = []" by (simp add: run)
  show "ebskipped (build_all_eb cfg rs doc) = int (length rs)" by (simp add: run)
  show "build_all_eb cfg rs (s3 (build_all_eb cfg rs doc)) = build_all_eb cfg rs doc"
    by (simp add: run)
next
  assume h: "doc (ebfile r) = Some x \<and> status x = ''success''"
  let ?st0 = "\<lparr>statdict = doc, s3 = doc, ebcnt = 0, ebskipped = 0, bldcnt = 0, errcnt = 0,
        errpkg = [], eb_runs = []\<rparr>"
  have run: "build_all_eb cfg [r] doc = ?st0\<lparr>ebcnt := 1, ebskipped := 1\<rparr>"
    unfolding build_all_eb_def initial_state_def
    using build_one_ignored [of ?st0 r x cfg] h by simp
  show "s3 (build_all_eb cfg [r] doc) = doc" by (simp add: run)
  show "eb_runs (build_all_eb cfg [r] doc) = []" by (simp add: run)
qed

lemmas example_eval =
  example_config_def example_recipe_def initial_state_def build_all_eb_def build_one_def
  plan_def toolchain_policy_def default_min_toolchains_def class_filter_def
  json_loads_def json_dumps_def default_template_def set_fields_def statdict_template_def
  put_json_def leave_def dep_cmdline_def target_cmdline_def build_target_def
  sversion_eval Let_def

theorem recorded_recipe_pass_is_noop_witness:
  "build_one (example_config True) (example_recipe (Modules []) (\<lambda>c. 0))
     (initial_state [''app-1.0.eb'' \<mapsto> statdict_template ''09:00'' \<lparr>status := ''success''\<rparr>])
   = (initial_state [''app-1.0.eb'' \<mapsto> statdict_template ''09:00'' \<lparr>status := ''success''\<rparr>])
       \<lparr>ebcnt := 1, ebskipped := 1\<rparr>
   \<and> s3 (build_all_eb (example_config False) [example_recipe (Modules []) (\<lambda>c. 0)]
         [''app-1.0.eb'' \<mapsto> statdict_template ''09:00'' \<lparr>status := ''skipped''\<rparr>])
     = [''app-1.0.eb'' \<mapsto> statdict_template ''09:00'' \<lparr>status := ''skipped''\<rparr>]"
proof -
  have a: "build_one (example_config True) (example_recipe (Modules []) (\<lambda>c. 0))
     (initial_state [''app-1.0.eb'' \<mapsto> statdict_template ''09:00'' \<lparr>status := ''success''\<rparr>])
   = (initial_state [''app-1.0.eb'' \<mapsto> statdict_template ''09:00'' \<lparr>status := ''success''\<rparr>])
       \<lparr>ebcnt := 1, ebskipped := 1\<rparr>"
    using recorded_recipe_pass_is_noop [of
        "initial_state [''app-1.0.eb'' \<mapsto> statdict_template ''09:00'' \<lparr>status := ''success''\<rparr>]"
        "example_recipe (Modules []) (\<lambda>c. 0)"
        "statdict_template ''09:00'' \<lparr>status := ''success''\<rparr>"
        "example_config True"]
    by (simp add: example_recipe_def initial_state_def)
  have b: "s3 (build_all_eb (example_config False) [example_recipe (Modules []) (\<lambda>c. 0)]
         [''app-1.0.eb'' \<mapsto> statdict_template ''09:00'' \<lparr>status := ''skipped''\<rparr>])
     = [''app-1.0.eb'' \<mapsto> statdict_template ''09:00'' \<lparr>status := ''skipped''\<rparr>]"
    using recorded_recipe_pass_is_noop [of _ _ _ "example_config False"
        "[example_recipe (Modules []) (\<lambda>c. 0)]"
        "[''app-1.0.eb'' \<mapsto> statdict_template ''09:00'' \<lparr>status := ''skipped''\<rparr>]"]
    by (simp add: example_recipe_def example_config_def)
  from a b show ?thesis by blast
qed

subsection \<open>What the planner's decisions write\<close>

lemma plan_objects:
  assumes "plan cfg r st = Abandoned d \<or> plan cfg r st = Skipped why d
           \<or> plan cfg r st = Satisfied d \<or> plan cfg r st = Proceed d"
  shows "d = default_template (ebfile r) (json_loads (trydate0 r) (s3 st))"
  using assms unfolding plan_def Let_def
  by (auto split: if_splits sum.splits verdict.splits option.splits bool.splits)

lemma dumps_after_set_target:
  assumes "d = default_template e (json_loads now doc)"
  shows "json_dumps (set_fields e f d) e
           = Some (f (case doc e of None \<Rightarrow> statdict_template now | Some y \<Rightarrow> y))"
    and "k \<noteq> e \<Longrightarrow> json_dumps (set_fields e f d) k = doc k"
proof -
  show "json_dumps (set_fields e f d) e
           = Some (f (case doc e of None \<Rightarrow> statdict_template now | Some y \<Rightarrow> y))"
    unfolding json_dumps_set_fields_same assms json_dumps_default_template
    by (simp split: option.splits)
  show "json_dumps (set_fields e f d) k = doc k" if "k \<noteq> e"
    using that unfolding assms
    by (auto simp: json_dumps_def set_fields_def default_template_def json_loads_def
        split: option.splits)
qed

lemma build_one_skipped:
  assumes "plan cfg r st = Skipped why d"
  shows "s3 (build_one cfg r st) (ebfile r)
           = Some ((case s3 st (ebfile r) of None \<Rightarrow> statdict_template (trydate0 r) | Some y \<Rightarrow> y)
                     \<lparr>status := ''skipped'', reason := why\<rparr>)"
    and "k \<noteq> ebfile r \<Longrightarrow> s3 (build_one cfg r st) k = s3 st k"
    and "eb_runs (build_one cfg r st) = eb_runs st"
    and "ebskipped (build_one cfg r st) = ebskipped st + 1"
  using assms dumps_after_set_target [OF plan_objects [of cfg r st d why]]
  by (simp_all add: build_one_def put_json_def leave_def Let_def)

lemma build_one_satisfied:
  assumes "plan cfg r st = Satisfied d"
  shows "s3 (build_one cfg r st) (ebfile r)
           = Some ((case s3 st (ebfile r) of None \<Rightarrow> statdict_template (trydate0 r) | Some y \<Rightarrow> y)
                     \<lparr>status := ''success'', reason := ''easyconfig built successfully''\<rparr>)"
    and "k \<noteq> ebfile r \<Longrightarrow> s3 (build_one cfg r st) k = s3 st k"
    and "eb_runs (build_one cfg r st) = eb_runs st"
    and "ebskipped (build_one cfg r st) = ebskipped st + 1"
  using assms dumps_after_set_target [OF plan_objects [of cfg r st d]]
  by (simp_all add: build_one_def put_json_def leave_def Let_def)

subsection \<open>The toolchain policy\<close>

lemma toolchain_policy_verdict:
  assumes "toolchain_policy table p = Inr v"
  shows "v =
     (if \<exists>m. table (pkg_name p) = Some m \<and> sversion_lt (pkg_version p) m = Inr True
      then Skip (''toolchain version too old: '' @ pkg_version p)
      else if table (tc_name p) = None
      then Skip (''toolchain not supported: '' @ tc_name p)
      else if \<exists>m. table (tc_name p) = Some m \<and> sversion_lt (tc_version p) m = Inr True
      then Skip (''toolchain version too old: '' @ tc_name p @ ''-'' @ tc_version p)
      else Eligible)"
  using assms unfolding toolchain_policy_def
  by (auto split: option.splits sum.splits bool.splits)

lemma toolchain_policy_error:
  "toolchain_policy table p = Inl e \<longleftrightarrow>
     (\<exists>m. table (pkg_name p) = Some m \<and> sversion_lt (pkg_version p) m = Inl e) \<or>
     ((table (pkg_name p) = None \<or>
       (\<exists>m. table (pkg_name p) = Some m \<and> sversion_lt (pkg_version p) m = Inr False)) \<and>
      (\<exists>m. table (tc_name p) = Some m \<and> sversion_lt (tc_version p) m = Inl e))"
  unfolding toolchain_policy_def
  by (auto split: option.splits sum.splits bool.splits)

lemma plan_policy_skip:
  assumes "case statdict st (ebfile r) of None \<Rightarrow> True
           | Some x \<Rightarrow> status x = ''skipped'' \<and> checkskipped cfg"
    and "\<not> raises r Sweep" and "\<not> raises r ReadEasyconfig"
    and "toolchain_policy (min_toolchains cfg) (easyconfig r) = Inr (Skip why)"
  shows "plan cfg r st
           = Skipped why (default_template (ebfile r) (json_loads (trydate0 r) (s3 st)))"
  using assms unfolding plan_def Let_def
  by (auto split: option.splits)

lemma gcc_example:
  "toolchain_policy [''GCC'' \<mapsto> ''11.0'']
     \<lparr>pkg_name = ''zlib'', pkg_version = ''1.2.11'', tc_name = ''GCC'', tc_version = ''10.3'',
      osdep = [], cls = ''lib''\<rparr>
   = Inr (Skip ''toolchain version too old: GCC-10.3'')"
  by (simp add: toolchain_policy_def sversion_eval)

text \<open>
  Claim C3, as amended. When the checks against the table return, they return the
  outcome of the first rule that fires, in this order: the recipe's own name is in the
  table and its version compares below the minimum (reason
  \<open>toolchain version too old: <version>\<close>); the toolchain's name is not in the table
  (\<open>toolchain not supported: <name>\<close>); the toolchain's version compares below the minimum
  of its name (\<open>toolchain version too old: <name>-<version>\<close>); otherwise the recipe is
  eligible. They do not return exactly when the comparison of the first or of the third
  rule raises. A pass that reaches the checks and gets a skip writes the record with the
  status \<open>skipped\<close> and that reason and runs no \<open>eb\<close> command. For the table
  \<open>{GCC: 11.0}\<close> a recipe on \<open>GCC-10.3\<close> is skipped as too old.
\<close>

theorem toolchain_policy_rules:
  "(toolchain_policy table p = Inr v \<longrightarrow>
      v = (if \<exists>m. table (pkg_name p) = Some m \<and> sversion_lt (pkg_version p) m = Inr True
           then Skip (''toolchain version too old: '' @ pkg_version p)
           else if table (tc_name p) = None
           then Skip (''toolchain not supported: '' @ tc_name p)
           else if \<exists>m. table (tc_name p) = Some m \<and> sversion_lt (tc_version p) m = Inr True
           then Skip (''toolchain version too old: '' @ tc_name p @ ''-'' @ tc_version p)
           else Eligible))
   \<and> (toolchain_policy table p = Inl e \<longleftrightarrow>
        (\<exists>m. table (pkg_name p) = Some m \<and> sversion_lt (pkg_version p) m = Inl e) \<or>
        ((table (pkg_name p) = None \<or>
          (\<exists>m. table (pkg_name p) = Some m \<and> sversion_lt (pkg_version p) m = Inr False)) \<and>
         (\<exists>m. table (tc_name p) = Some m \<and> sversion_lt (tc_version p) m = Inl e)))
   \<and> ((case statdict st (ebfile r) of None \<Rightarrow> True
         | Some x \<Rightarrow> status x = ''skipped'' \<and> checkskipped cfg) \<and>
       \<not> raises r Sweep \<and> \<not> raises r ReadEasyconfig \<and>
       toolchain_policy (min_toolchains cfg) (easyconfig r) = Inr (Skip why) \<longrightarrow>
        s3 (build_one cfg r st) (ebfile r)
          = Some ((case s3 st (ebfile r) of None \<Rightarrow> statdict_template (trydate0 r)
                   | Some y \<Rightarrow> y) \<lparr>status := ''skipped'', reason := why\<rparr>) \<and>
        eb_runs (build_one cfg r st) = eb_runs st)
   \<and> toolchain_policy [''GCC'' \<mapsto> ''11.0'']
        \<lparr>pkg_name = ''zlib'', pkg_version = ''1.2.11'', tc_name = ''GCC'', tc_version = ''10.3'',
         osdep = [], cls = ''lib''\<rparr>
      = Inr (Skip ''toolchain version too old: GCC-10.3'')"
proof (intro conjI impI)
  assume "toolchain_policy table p = Inr v"
  then show "v = (if \<exists>m. table (pkg_name p) = Some m \<and> sversion_lt (pkg_version p) m = Inr True
           then Skip (''toolchain version too old: '' @ pkg_version p)
           else if table (tc_name p) = None
           then Skip (''toolchain not supported: '' @ tc_name p)
           else if \<exists>m. table (tc_name p) = Some m \<and> sversion_lt (tc_version p) m = Inr True
           then Skip (''toolchain version too old: '' @ tc_name p @ ''-'' @ tc_version p)
           else Eligible)"
    by (rule toolchain_policy_verdict)
next
  show "toolchain_policy table p = Inl e \<longleftrightarrow>
        (\<exists>m. table (pkg_name p) = Some m \<and> sversion_lt (pkg_version p) m = Inl e) \<or>
        ((table (pkg_name p) = None \<or>
          (\<exists>m. table (pkg_name p) = Some m \<and> sversion_lt (pkg_version p) m = Inr False)) \<and>
         (\<exists>m. table (tc_name p) = Some m \<and> sversion_lt (tc_version p) m = Inl e))"
    by (rule toolchain_policy_error)
next
  assume h: "(case statdict st (ebfile r) of None \<Rightarrow> True
         | Some x \<Rightarrow> status x = ''skipped'' \<and> checkskipped cfg) \<and>
       \<not> raises r Sweep \<and> \<not> raises r ReadEasyconfig \<and>
       toolchain_policy (min_toolchains cfg) (easyconfig r) = Inr (Skip why)"
  then have p: "plan cfg r st
           = Skipped why (default_template (ebfile r) (json_loads (trydate0 r) (s3 st)))"
    using plan_policy_skip [where st=st and r=r and cfg=cfg and why=why] by blast
  show "s3 (build_one cfg r st) (ebfile r)
          = Some ((case s3 st (ebfile r) of None \<Rightarrow> statdict_template (trydate0 r)
                   | Some y \<Rightarrow> y) \<lparr>status := ''skipped'', reason := why\<rparr>)"
    by (rule build_one_skipped(1) [OF p])
  show "eb_runs (build_one cfg r st) = eb_runs st"
    by (rule build_one_skipped(3) [OF p])
next
  show "toolchain_policy [''GCC'' \<mapsto> ''11.0'']
        \<lparr>pkg_name = ''zlib'', pkg_version = ''1.2.11'', tc_name = ''GCC'', tc_version = ''10.3'',
         osdep = [], cls = ''lib''\<rparr>
      = Inr (Skip ''toolchain version too old: GCC-10.3'')"
    by (rule gcc_example)
qed

theorem toolchain_policy_rules_witness:
  "toolchain_policy default_min_toolchains
     \<lparr>pkg_name = ''GCC'', pkg_version = ''10.3.0'', tc_name = ''system'',
      tc_version = ''system'', osdep = [], cls = ''compiler''\<rparr>
   = Inr (Skip ''toolchain version too old: 10.3.0'')
   \<and> s3 (build_one (example_config False)
          ((example_recipe (Modules []) (\<lambda>c. 0))
             \<lparr>easyconfig := \<lparr>pkg_name = ''app'', pkg_version = ''1.0'', tc_name = ''iccifort'',
                tc_version = ''2020.4.304'', osdep = [], cls = ''tools''\<rparr>\<rparr>)
          (initial_state Map.empty)) ''app-1.0.eb''
     = Some ((statdict_template ''10:00'')
               \<lparr>status := ''skipped'', reason := ''toolchain not supported: iccifort''\<rparr>)"
proof -
  have v: "toolchain_policy default_min_toolchains
     \<lparr>pkg_name = ''GCC'', pkg_version = ''10.3.0'', tc_name = ''system'',
      tc_version = ''system'', osdep = [], cls = ''compiler''\<rparr>
    = Inr (Skip ''toolchain version too old: 10.3.0'')"
    by (simp add: toolchain_policy_def default_min_toolchains_def sversion_eval)
  have w: "toolchain_policy default_min_toolchains
     \<lparr>pkg_name = ''app'', pkg_version = ''1.0'', tc_name = ''iccifort'',
                tc_version = ''2020.4.304'', osdep = [], cls = ''tools''\<rparr>
    = Inr (Skip ''toolchain not supported: iccifort'')"
    by (simp add: toolchain_policy_def default_min_toolchains_def sversion_eval)
  have b: "s3 (build_one (example_config False)
          ((example_recipe (Modules []) (\<lambda>c. 0))
             \<lparr>easyconfig := \<lparr>pkg_name = ''app'', pkg_version = ''1.0'', tc_name = ''iccifort'',
                tc_version = ''2020.4.304'', osdep = [], cls = ''tools''\<rparr>\<rparr>)
          (initial_state Map.empty)) ''app-1.0.eb''
     = Some ((statdict_template ''10:00'')
               \<lparr>status := ''skipped'', reason := ''toolchain not supported: iccifort''\<rparr>)"
    using toolchain_policy_rules [where st = "initial_state Map.empty"
        and r = "(example_recipe (Modules []) (\<lambda>c. 0))
             \<lparr>easyconfig := \<lparr>pkg_name = ''app'', pkg_version = ''1.0'', tc_name = ''iccifort'',
                tc_version = ''2020.4.304'', osdep = [], cls = ''tools''\<rparr>\<rparr>"
        and cfg = "example_config False" and why = "''toolchain not supported: iccifort''"] w
    by (simp add: example_recipe_def example_config_def initial_state_def)
  from v b show ?thesis by blast
qed

text \<open>
  Claim C3 as stated fails for a package whose comparison raises: the toolchain recipe
  \<open>foss\<close> in version \<open>2022.05\<close> (on the system toolchain) is neither skipped with a reason
  nor eligible under the default table, the first check raises \<open>TypeError\<close>.
\<close>

theorem toolchain_policy_raises_counterexample:
  "toolchain_policy default_min_toolchains
     \<lparr>pkg_name = ''foss'', pkg_version = ''2022.05'', tc_name = ''system'',
      tc_version = ''system'', osdep = [], cls = ''toolchain''\<rparr>
   = Inl TypeError"
  by (simp add: toolchain_policy_def default_min_toolchains_def sversion_eval)

subsection \<open>A recipe with nothing missing\<close>

lemma plan_satisfied:
  assumes "case statdict st (ebfile r) of None \<Rightarrow> True
           | Some x \<Rightarrow> status x = ''skipped'' \<and> checkskipped cfg"
    and "\<not> raises r Sweep" and "\<not> raises r ReadEasyconfig"
    and "toolchain_policy (min_toolchains cfg) (easyconfig r) = Inr Eligible"
    and "class_filter (include_opt cfg) (exclude_opt cfg) (cls (easyconfig r)) = None"
    and "osdep (easyconfig r) = [] \<or> \<not> raises r InstallOsDeps"
    and "\<not> raises r QueryMissing"
    and "themissing r = Modules []"
  shows "plan cfg r st
           = Satisfied (default_template (ebfile r) (json_loads (trydate0 r) (s3 st)))"
  using assms unfolding plan_def Let_def
  by (auto split: option.splits)

text \<open>
  Claim C5, as amended. A pass that reaches the checks (the recipe has no record, or a
  \<open>skipped\<close> one under \<open>--check-skipped\<close>), passes the toolchain policy and the
  module-class filter and gets an empty answer from the missing-modules query writes the
  recipe's record with the status \<open>success\<close> and the reason
  \<open>easyconfig built successfully\<close> (the other fields as they were, or as in the
  template), leaves the other records as they are and runs no \<open>eb\<close> command.
\<close>

theorem satisfied_recipe_recorded_success:
  assumes "case statdict st (ebfile r) of None \<Rightarrow> True
           | Some x \<Rightarrow> status x = ''skipped'' \<and> checkskipped cfg"
    and "\<not> raises r Sweep" and "\<not> raises r ReadEasyconfig"
    and "toolchain_policy (min_toolchains cfg) (easyconfig r) = Inr Eligible"
    and "class_filter (include_opt cfg) (exclude_opt cfg) (cls (easyconfig r)) = None"
    and "osdep (easyconfig r) = [] \<or> \<not> raises r InstallOsDeps"
    and "\<not> raises r QueryMissing"
    and "themissing r = Modules []"
  shows "s3 (build_one cfg r st) (ebfile r)
           = Some ((case s3 st (ebfile r) of None \<Rightarrow> statdict_template (trydate0 r)
                    | Some y \<Rightarrow> y)
                     \<lparr>status := ''success'', reason := ''easyconfig built successfully''\<rparr>)
         \<and> (\<forall>k. k \<noteq> ebfile r \<longrightarrow> s3 (build_one cfg r st) k = s3 st k)
         \<and> eb_runs (build_one cfg r st) = eb_runs st"
  using build_one_satisfied [OF plan_satisfied [OF assms]] by blast

lemma example_eligible:
  "toolchain_policy default_min_toolchains
     \<lparr>pkg_name = ''app'', pkg_version = ''1.0'', tc_name = ''GCC'', tc_version = ''12.3.0'',
      osdep = [], cls = ''tools''\<rparr> = Inr Eligible"
  by (simp add: toolchain_policy_def default_min_toolchains_def sversion_eval)

theorem satisfied_recipe_recorded_success_witness:
  "s3 (build_one (example_config False) (example_recipe (Modules []) (\<lambda>c. 0))
         (initial_state Map.empty)) ''app-1.0.eb''
     = Some \<lparr>status = ''success'', reason = ''easyconfig built successfully'',
             returncode = - 1, errorcount = 0, trydate = ''10:00'', buildtime = 0,
             modules = None\<rparr>
   \<and> eb_runs (build_one (example_config False) (example_recipe (Modules []) (\<lambda>c. 0))
         (initial_state Map.empty)) = []"
  using satisfied_recipe_recorded_success [where st = "initial_state Map.empty"
      and r = "example_recipe (Modules []) (\<lambda>c. 0)" and cfg = "example_config False"]
    example_eligible
  by (simp add: example_recipe_def example_config_def initial_state_def class_filter_def
      statdict_template_def)

text \<open>
  Claim C5 as stated fails in the reason it names: for a recipe with nothing missing the
  record's reason is \<open>easyconfig built successfully\<close>, not \<open>already installed\<close>.
\<close>

theorem satisfied_reason_counterexample:
  "map_option reason
     (s3 (build_one (example_config False) (example_recipe (Modules []) (\<lambda>c. 0))
            (initial_state Map.empty)) ''app-1.0.eb'')
   = Some ''easyconfig built successfully''"
  by (simp add: example_eval)

subsection \<open>The chain of dependencies\<close>

lemma dep_cmdline_not_target: "dep_cmdline ebf \<noteq> target_cmdline r"
proof -
  have "dep_cmdline ebf ! 5 = CHR ''u''"
    by (simp add: dep_cmdline_def nth_append)
  moreover have "target_cmdline r ! 5 = CHR ''r''"
    by (simp add: target_cmdline_def nth_append)
  ultimately show ?thesis by auto
qed

lemma loaded_record_default_template:
  "loaded_record d t y \<Longrightarrow> loaded_record (default_template k d) t y"
  by (auto simp: loaded_record_def wf_objects_def default_template_def split: option.splits)

lemma loaded_record_set_fields:
  "loaded_record d t y \<Longrightarrow> k \<noteq> t \<Longrightarrow> loaded_record (set_fields k f d) t y"
  by (auto simp: loaded_record_def wf_objects_def set_fields_def split: option.splits)

lemma loaded_record_dumps: "loaded_record d t y \<Longrightarrow> json_dumps d t = Some y"
  by (simp add: loaded_record_def json_dumps_def)

lemma loaded_record_plan:
  assumes "d = default_template e (json_loads now doc)" and "doc e = Some y"
  shows "loaded_record d e y"
  using assms
  by (auto simp: loaded_record_def wf_objects_def default_template_def json_loads_def
      split: option.splits)

lemma present_default_template:
  "wf_objects d \<and> refs d t \<noteq> None \<Longrightarrow>
   wf_objects (default_template k d) \<and> refs (default_template k d) t \<noteq> None"
  by (auto simp: wf_objects_def default_template_def split: option.splits)

lemma present_set_fields:
  "wf_objects d \<and> refs d t \<noteq> None \<Longrightarrow>
   wf_objects (set_fields k f d) \<and> refs (set_fields k f d) t \<noteq> None"
  by (auto simp: wf_objects_def set_fields_def split: option.splits)

lemma present_dumps: "wf_objects d \<and> refs d t \<noteq> None \<Longrightarrow> json_dumps d t \<noteq> None"
  by (auto simp: wf_objects_def json_dumps_def split: option.splits)

lemma present_plan:
  assumes "d = default_template e (json_loads now doc)"
  shows "wf_objects d \<and> refs d e \<noteq> None"
  using assms
  by (auto simp: wf_objects_def default_template_def json_loads_def split: option.splits)

lemma dep_loop_first_failure:
  assumes "k < length deps" and "eb r (dep_cmdline (deps ! k)) \<noteq> 0"
    and "\<forall>j<k. eb r (dep_cmdline (deps ! j)) = 0"
  shows "\<exists>st'. dep_loop r deps d st = Done st' \<and>
           eb_runs st' = eb_runs st @ map dep_cmdline (take (Suc k) deps) \<and>
           errcnt st' = errcnt st + 1 \<and> errpkg st' = errpkg st @ [deps ! k] \<and>
           ebskipped st' = ebskipped st"
  using assms
proof (induction deps arbitrary: k d st)
  case Nil
  then show ?case by simp
next
  case (Cons ebf rest)
  show ?case
  proof (cases k)
    case 0
    with Cons.prems show ?thesis
      by (simp add: Let_def leave_def put_json_def)
  next
    case (Suc k')
    with Cons.prems have ok: "eb r (dep_cmdline ebf) = 0" by auto
    from Suc Cons.prems have k': "k' < length rest" "eb r (dep_cmdline (rest ! k')) \<noteq> 0"
      "\<forall>j<k'. eb r (dep_cmdline (rest ! j)) = 0" by auto
    from Cons.IH [OF k'] show ?thesis
      using ok Suc by (simp add: Let_def put_json_def) (metis (no_types, lifting) append_Cons
          append_Nil append_assoc bstate.select_convs bstate.simps bstate.surjective
          bstate.update_convs)
  qed
qed


lemma dep_loop_failure_record:
  assumes "k < length deps" and "eb r (dep_cmdline (deps ! k)) \<noteq> 0"
    and "\<forall>j<k. eb r (dep_cmdline (deps ! j)) = 0"
    and "wf_objects d \<and> refs d t \<noteq> None" and "\<not> raises r (CopyLog (deps ! k))"
  shows "\<exists>st' x. dep_loop r deps d st = Done st' \<and> s3 st' (deps ! k) = Some x \<and>
           status x = ''error'' \<and> reason x = ''n/a'' \<and>
           returncode x = eb r (dep_cmdline (deps ! k)) \<and> s3 st' t \<noteq> None"
  using assms
proof (induction deps arbitrary: k d st)
  case Nil
  then show ?case by simp
next
  case (Cons ebf rest)
  let ?f1 = "\<lambda>x. x\<lparr>returncode := eb r (dep_cmdline ebf), trydate := dep_trydate r ebf,
                 buildtime := dep_buildtime r ebf\<rparr>"
  let ?d2 = "set_fields ebf ?f1 (default_template ebf d)"
  have wf2: "wf_objects ?d2 \<and> refs ?d2 t \<noteq> None"
    using Cons.prems(4) present_default_template present_set_fields by blast
  show ?case
  proof (cases k)
    case 0
    let ?f2 = "\<lambda>x. x\<lparr>status := ''error'', reason := ''n/a'', errorcount := errorcount x + 1\<rparr>"
    let ?d3 = "set_fields ebf ?f2 ?d2"
    have wf3: "wf_objects ?d3 \<and> refs ?d3 t \<noteq> None"
      using wf2 present_set_fields by blast
    have "wf_objects (default_template ebf d)"
      using Cons.prems(4) present_default_template by blast
    then have "json_dumps (default_template ebf d) ebf \<noteq> None"
      using json_dumps_present refs_default_template_same by blast
    then obtain x0 where x0: "json_dumps (default_template ebf d) ebf = Some x0" by auto
    have rec: "json_dumps ?d3 ebf = Some (?f2 (?f1 x0))"
      by (simp add: json_dumps_set_fields_same x0)
    have pres: "json_dumps ?d3 t \<noteq> None"
      using wf3 present_dumps by blast
    from 0 Cons.prems(2,5) rec pres show ?thesis
      by (simp add: Let_def leave_def put_json_def)
  next
    case (Suc k')
    with Cons.prems have ok: "eb r (dep_cmdline ebf) = 0" by auto
    let ?f2 = "\<lambda>x. x\<lparr>status := ''success'', reason := ''easyconfig built successfully'',
                  modules := None\<rparr>"
    let ?d3 = "set_fields ebf ?f2 ?d2"
    have wf3: "wf_objects ?d3 \<and> refs ?d3 t \<noteq> None"
      using wf2 present_set_fields by blast
    from Suc Cons.prems have k': "k' < length rest" "eb r (dep_cmdline (rest ! k')) \<noteq> 0"
      "\<forall>j<k'. eb r (dep_cmdline (rest ! j)) = 0" "\<not> raises r (CopyLog (rest ! k'))" by auto
    from Cons.IH [OF k'(1,2,3) wf3 k'(4)] show ?thesis
      using ok Suc by (simp add: Let_def)
  qed
qed

lemma dep_loop_keeps_loaded:
  assumes "loaded_record d t y" and "t \<notin> set deps" and "s3 st t = Some y"
    and "dep_loop r deps d st = Done st'"
  shows "s3 st' t = Some y"
  using assms
proof (induction deps arbitrary: d st)
  case Nil
  then show ?case by simp
next
  case (Cons ebf rest)
  have ne: "ebf \<noteq> t" using Cons.prems(2) by auto
  let ?f1 = "\<lambda>x. x\<lparr>returncode := eb r (dep_cmdline ebf), trydate := dep_trydate r ebf,
                 buildtime := dep_buildtime r ebf\<rparr>"
  let ?d2 = "set_fields ebf ?f1 (default_template ebf d)"
  have l2: "loaded_record ?d2 t y"
    using Cons.prems(1) ne loaded_record_default_template loaded_record_set_fields by blast
  show ?case
  proof (cases "eb r (dep_cmdline ebf) = 0")
    case True
    let ?f2 = "\<lambda>x. x\<lparr>status := ''success'', reason := ''easyconfig built successfully'',
                  modules := None\<rparr>"
    let ?d3 = "set_fields ebf ?f2 ?d2"
    let ?st2 = "put_json ?d3 (st\<lparr>eb_runs := eb_runs st @ [dep_cmdline ebf],
                   bldcnt := bldcnt st + 1\<rparr>)"
    have l3: "loaded_record ?d3 t y"
      using l2 ne loaded_record_set_fields by blast
    have s: "s3 ?st2 t = Some y"
      using loaded_record_dumps [OF l3] by (simp add: put_json_def)
    have "dep_loop r rest ?d3 ?st2 = Done st'"
      using Cons.prems(4) True by (simp add: Let_def)
    from Cons.IH [OF l3 _ s this] Cons.prems(2) show ?thesis by simp
  next
    case False
    let ?f2 = "\<lambda>x. x\<lparr>status := ''error'', reason := ''n/a'', errorcount := errorcount x + 1\<rparr>"
    let ?d3 = "set_fields ebf ?f2 ?d2"
    have l3: "loaded_record ?d3 t y"
      using l2 ne loaded_record_set_fields by blast
    show ?thesis
      using Cons.prems(3,4) False loaded_record_dumps [OF l3]
      by (auto simp: Let_def leave_def put_json_def split: if_splits)
  qed
qed

lemma build_one_proceed:
  assumes "plan cfg r st = Proceed d" and "\<not> raises r Download"
  shows "build_one cfg r st =
     (case dep_loop r (dependencies (themissing r)) d
             (st\<lparr>ebcnt := ebcnt st + 1, ebskipped := ebskipped st\<rparr>) of
        Done st' \<Rightarrow> st'
      | Next d' st' \<Rightarrow> build_target r d' st')"
  using assms by (simp add: build_one_def Let_def)

text \<open>
  Claim C6, as amended. When the planner hands a recipe to the executor and the build of
  a dependency (the \<open>k\<close>-th, the earlier ones having succeeded) returns a non-zero code,
  the \<open>eb\<close> commands of the pass are those of the dependencies up to that one: no later
  dependency is built and the recipe itself is not invoked. Unless the copy of the build
  log raises, the store then holds the failed dependency's record with the status
  \<open>error\<close> and its return code, and holds a record for the recipe. A record the recipe
  had in the store before the pass is the same after it (the recipe not being one of its
  own dependencies).
\<close>

theorem dependency_failure_aborts_chain:
  assumes "plan cfg r st = Proceed d" and "\<not> raises r Download"
    and "k < length (dependencies (themissing r))"
    and "eb r (dep_cmdline (dependencies (themissing r) ! k)) \<noteq> 0"
    and "\<forall>j<k. eb r (dep_cmdline (dependencies (themissing r) ! j)) = 0"
  shows "eb_runs (build_one cfg r st)
           = eb_runs st @ map dep_cmdline (take (Suc k) (dependencies (themissing r)))
     \<and> target_cmdline r \<notin> set (map dep_cmdline (take (Suc k) (dependencies (themissing r))))
     \<and> (\<not> raises r (CopyLog (dependencies (themissing r) ! k)) \<longrightarrow>
          (\<exists>x. s3 (build_one cfg r st) (dependencies (themissing r) ! k) = Some x \<and>
               status x = ''error'' \<and>
               returncode x = eb r (dep_cmdline (dependencies (themissing r) ! k))) \<and>
          s3 (build_one cfg r st) (ebfile r) \<noteq> None)
     \<and> (\<forall>y. s3 st (ebfile r) = Some y \<and> ebfile r \<notin> set (dependencies (themissing r)) \<longrightarrow>
          s3 (build_one cfg r st) (ebfile r) = Some y)"
proof -
  let ?deps = "dependencies (themissing r)"
  let ?st1 = "st\<lparr>ebcnt := ebcnt st + 1, ebskipped := ebskipped st\<rparr>"
  have d: "d = default_template (ebfile r) (json_loads (trydate0 r) (s3 st))"
    using plan_objects [of cfg r st d] assms(1) by blast
  obtain st' where fin: "dep_loop r ?deps d ?st1 = Done st'"
    and runs: "eb_runs st' = eb_runs ?st1 @ map dep_cmdline (take (Suc k) ?deps)"
    using dep_loop_first_failure [OF assms(3,4,5), of d ?st1] by blast
  have b: "build_one cfg r st = st'"
    using build_one_proceed [OF assms(1,2)] fin by simp
  have 1: "eb_runs (build_one cfg r st) = eb_runs st @ map dep_cmdline (take (Suc k) ?deps)"
    using b runs by simp
  have 2: "target_cmdline r \<notin> set (map dep_cmdline (take (Suc k) ?deps))"
    using dep_cmdline_not_target [where r = r] by (auto dest: sym)
  have 3: "(\<exists>x. s3 (build_one cfg r st) (?deps ! k) = Some x \<and> status x = ''error'' \<and>
               returncode x = eb r (dep_cmdline (?deps ! k))) \<and>
          s3 (build_one cfg r st) (ebfile r) \<noteq> None"
    if "\<not> raises r (CopyLog (?deps ! k))"
    using dep_loop_failure_record [OF assms(3,4,5) present_plan [OF d] that, of ?st1] fin b
    by auto
  have 4: "s3 (build_one cfg r st) (ebfile r) = Some y"
    if "s3 st (ebfile r) = Some y \<and> ebfile r \<notin> set ?deps" for y
    using dep_loop_keeps_loaded [OF loaded_record_plan [OF d] _ _ fin, of y] that b
    by simp
  from 1 2 3 4 show ?thesis by blast
qed

theorem dependency_failure_aborts_chain_witness:
  "eb_runs (build_one (example_config True) (example_recipe example_chain (\<lambda>c. 1))
      (initial_state example_skipped)) = [''eb --umask=002 lib-2.0.eb'']
   \<and> map_option status (s3 (build_one (example_config True)
         (example_recipe example_chain (\<lambda>c. 1)) (initial_state example_skipped))
         ''lib-2.0.eb'') = Some ''error''
   \<and> s3 (build_one (example_config True) (example_recipe example_chain (\<lambda>c. 1))
         (initial_state example_skipped)) ''app-1.0.eb''
       = Some (statdict_template ''09:00'' \<lparr>status := ''skipped''\<rparr>)"
proof -
  let ?r = "example_recipe example_chain (\<lambda>c. 1)"
  let ?st = "initial_state example_skipped"
  have p: "plan (example_config True) ?r ?st
             = Proceed (default_template ''app-1.0.eb'' (json_loads ''10:00'' example_skipped))"
    by (simp add: example_eval example_chain_def example_skipped_def)
  have deps: "dependencies (themissing ?r) = [''lib-2.0.eb'']" "ebfile ?r = ''app-1.0.eb''"
    "\<not> raises ?r Download" "\<not> raises ?r (CopyLog ''lib-2.0.eb'')"
    "eb ?r c = 1" "s3 ?st = example_skipped" for c
    by (simp_all add: example_recipe_def example_chain_def initial_state_def)
  have cmd: "dep_cmdline ''lib-2.0.eb'' = ''eb --umask=002 lib-2.0.eb''"
    by (simp add: dep_cmdline_def)
  have st: "eb_runs ?st = []"
    "example_skipped ''app-1.0.eb'' = Some (statdict_template ''09:00'' \<lparr>status := ''skipped''\<rparr>)"
    by (simp_all add: initial_state_def example_skipped_def)
  from dependency_failure_aborts_chain [OF p, where k = 0] show ?thesis
    by (auto simp: deps cmd st)
qed

text \<open>
  Claim C6 as stated fails for a recipe without a record: the pass gives it one before
  the dependencies are built, the same object as the record of the failed dependency,
  so the store ends with an \<open>error\<close> record for the recipe that was never invoked.
\<close>

theorem failed_dependency_marks_target_counterexample:
  "s3 (build_one (example_config False) (example_recipe example_chain (\<lambda>c. 1))
         (initial_state Map.empty)) ''app-1.0.eb''
   = Some \<lparr>status = ''error'', reason = ''n/a'', returncode = 1, errorcount = 1,
           trydate = ''10:05'', buildtime = 60, modules = None\<rparr>"
  by (simp add: example_eval example_chain_def)

subsection \<open>The error count of a record\<close>

text \<open>
  Claim C10 at a failed build of the recipe itself. The recipe \<open>app-1.0.eb\<close> has no
  record and misses only its own module, and its \<open>eb\<close> command returns 1: the record
  written to the store has the status \<open>error\<close> and the return code 1, and its error
  count is still 0. (The branch for a failed dependency adds one to the error count;
  the branch for the recipe does not.)
\<close>

theorem target_failure_errorcount_counterexample:
  "s3 (build_one (example_config False)
         (example_recipe (Modules [(''app/1.0'', ''app-1.0.eb'')]) (\<lambda>c. 1))
         (initial_state Map.empty)) ''app-1.0.eb''
   = Some \<lparr>status = ''error'', reason = ''n/a'', returncode = 1, errorcount = 0,
           trydate = ''10:00'', buildtime = 90,
           modules = Some (Modules [(''app/1.0'', ''app-1.0.eb'')])\<rparr>
   \<and> eb_runs (build_one (example_config False)
         (example_recipe (Modules [(''app/1.0'', ''app-1.0.eb'')]) (\<lambda>c. 1))
         (initial_state Map.empty)) = [''eb --robot --umask=002 /e/app-1.0.eb'']"
  by (simp add: example_eval)

end
